theory Spec2Isabelle
  imports Main
begin

section \<open>Strings as the rules code uses them\<close>

text \<open>
  Card texts are JavaScript strings. They are modelled as \<open>string\<close> whose characters
  stand for the code units below 256 (ASCII and Latin-1); on these the functions below
  compute what \<open>String.prototype.toLowerCase\<close>, \<open>includes\<close>, \<open>split\<close> and the
  regular expressions of the source compute.
\<close>

definition lowerChar :: "char \<Rightarrow> char" where
  "lowerChar c =
     (let n = of_char c :: nat
      in if (65 \<le> n \<and> n \<le> 90) \<or> (192 \<le> n \<and> n \<le> 222 \<and> n \<noteq> 215)
         then char_of (n + 32) else c)"

definition toLowerCase :: "string \<Rightarrow> string" where
  "toLowerCase s = map lowerChar s"

definition startsWith :: "string \<Rightarrow> string \<Rightarrow> bool" where
  "startsWith s p = (take (length p) s = p)"

text \<open>\<open>s.includes(sub)\<close> (named \<open>strIncludes\<close>): \<open>sub\<close> occurs in \<open>s\<close> at some position.\<close>

fun strIncludes :: "string \<Rightarrow> string \<Rightarrow> bool" where
  "strIncludes [] sub = (sub = [])"
| "strIncludes (c # cs) sub = (startsWith (c # cs) sub \<or> strIncludes cs sub)"

text \<open>The character classes \<open>\s\<close>, \<open>\w\<close> and \<open>\d\<close> of a JavaScript regular expression.\<close>

definition isSpace :: "char \<Rightarrow> bool" where
  "isSpace c = (let n = of_char c :: nat in (9 \<le> n \<and> n \<le> 13) \<or> n = 32 \<or> n = 160)"

definition isDigit :: "char \<Rightarrow> bool" where
  "isDigit c = (let n = of_char c :: nat in 48 \<le> n \<and> n \<le> 57)"

definition isWordChar :: "char \<Rightarrow> bool" where
  "isWordChar c =
     (let n = of_char c :: nat
      in (48 \<le> n \<and> n \<le> 57) \<or> (65 \<le> n \<and> n \<le> 90) \<or> n = 95 \<or> (97 \<le> n \<and> n \<le> 122))"

section \<open>Data model (types)\<close>

datatype PlayerKey = Player | Ai

datatype Phase = Upkeep | Draw | Main1 | Combat | Main2 | End

datatype Step = DeclareAttackers | DeclareBlockers | Damage

record ManaPool =
  white :: int
  blue :: int
  black :: int
  red :: int
  green :: int
  colorless :: int

text \<open>
  \<open>MTGCard\<close> with the fields the rules subsystem reads; \<open>id\<close> and \<open>set\<close> are renamed
  \<open>card_id\<close> and \<open>card_set\<close>. An optional field is an \<open>option\<close>, the \<open>legalities\<close>
  record an association list.
\<close>

record MTGCard =
  card_id :: string
  name :: string
  mana_cost :: "string option"
  type_line :: string
  oracle_text :: "string option"
  toughness :: "string option"
  legalities :: "(string \<times> string) list"
  card_set :: string

record PlayerState =
  life :: int
  mana_pool :: ManaPool
  hand :: "MTGCard list"
  library :: "MTGCard list"
  graveyard :: "MTGCard list"
  exile :: "MTGCard list"

record StackObject =
  so_id :: string
  source :: MTGCard
  so_controller :: PlayerKey
  so_targets :: "string list option"

record CombatCreature =
  cc_id :: string
  cc_card :: MTGCard
  attacking_player :: "PlayerKey option"

record BlockAssignment =
  attacker_id :: string
  blocker_id :: string

record CombatState =
  attackers :: "CombatCreature list"
  blockers :: "BlockAssignment list"

text \<open>
  \<open>GameState\<close>: the objects \<open>players\<close> and \<open>battlefield\<close>, each with the two keys
  \<open>player\<close> and \<open>ai\<close>, are functions of the key. \<open>game_id\<close>, \<open>turn_number\<close> and
  \<open>game_log\<close> are neither read nor written by the rules subsystem and are left out.
\<close>

record GameState =
  active_player :: PlayerKey
  phase :: Phase
  step :: "Step option"
  priority :: PlayerKey
  players :: "PlayerKey \<Rightarrow> PlayerState"
  battlefield :: "PlayerKey \<Rightarrow> MTGCard list"
  stack :: "StackObject list"
  combat :: "CombatState option"

text \<open>\<open>Object.entries\<close> and \<open>Object.values\<close> visit the key \<open>player\<close>, then \<open>ai\<close>.\<close>

definition playerKeys :: "PlayerKey list" where
  "playerKeys = [Player, Ai]"

section \<open>Zone manager\<close>

datatype Zone = Hand | Library | Graveyard | Exile | Battlefield | Stack

record ZoneChangeEvent =
  ev_card :: MTGCard
  ev_from :: Zone
  ev_to :: Zone
  ev_player :: PlayerKey
  ev_position :: "int option"
  ev_faceDown :: "bool option"

text \<open>The three \<open>ValidationError\<close>s thrown by \<open>validateZoneChange\<close>.\<close>

datatype ValidationError =
    CardNotFound string Zone
  | InvalidZoneTransition Zone Zone
  | CannotEnterBattlefield string

definition hasId :: "string \<Rightarrow> MTGCard list \<Rightarrow> bool" where
  "hasId i cs = list_ex (\<lambda>c. card_id c = i) cs"

definition cardExistsInZone :: "MTGCard \<Rightarrow> Zone \<Rightarrow> PlayerState \<Rightarrow> GameState \<Rightarrow> bool" where
  "cardExistsInZone crd z p gs =
     (case z of
        Hand \<Rightarrow> hasId (card_id crd) (hand p)
      | Library \<Rightarrow> hasId (card_id crd) (library p)
      | Graveyard \<Rightarrow> hasId (card_id crd) (graveyard p)
      | Exile \<Rightarrow> hasId (card_id crd) (exile p)
      | Battlefield \<Rightarrow>
          hasId (card_id crd) (battlefield gs Player) \<or> hasId (card_id crd) (battlefield gs Ai)
      | Stack \<Rightarrow> list_ex (\<lambda>obj. card_id (source obj) = card_id crd) (stack gs))"

fun validTransitions :: "Zone \<Rightarrow> Zone list" where
  "validTransitions Hand = [Battlefield, Graveyard, Exile, Library, Stack]"
| "validTransitions Library = [Hand, Graveyard, Exile, Battlefield]"
| "validTransitions Graveyard = [Hand, Library, Exile, Battlefield, Stack]"
| "validTransitions Exile = [Hand, Library, Graveyard, Battlefield, Stack]"
| "validTransitions Battlefield = [Graveyard, Exile, Hand, Library]"
| "validTransitions Stack = [Graveyard, Exile, Battlefield, Hand]"

definition isValidZoneTransition :: "Zone \<Rightarrow> Zone \<Rightarrow> bool" where
  "isValidZoneTransition f t = List.member (validTransitions f) t"

definition isLand :: "MTGCard \<Rightarrow> bool" where
  "isLand crd = strIncludes (toLowerCase (type_line crd)) ''land''"

definition isToken :: "MTGCard \<Rightarrow> bool" where
  "isToken crd = (card_set crd = ''token'' \<or> strIncludes (toLowerCase (type_line crd)) ''token'')"

definition canEnterBattlefield :: "MTGCard \<Rightarrow> GameState \<Rightarrow> bool" where
  "canEnterBattlefield crd gs = (if isLand crd then True else if isToken crd then True else True)"

definition validateZoneChange :: "ZoneChangeEvent \<Rightarrow> GameState \<Rightarrow> ValidationError + bool" where
  "validateZoneChange ev gs =
     (let p = players gs (ev_player ev)
      in if \<not> cardExistsInZone (ev_card ev) (ev_from ev) p gs
           then Inl (CardNotFound (name (ev_card ev)) (ev_from ev))
         else if \<not> isValidZoneTransition (ev_from ev) (ev_to ev)
           then Inl (InvalidZoneTransition (ev_from ev) (ev_to ev))
         else if ev_to ev = Battlefield \<and> \<not> canEnterBattlefield (ev_card ev) gs
           then Inl (CannotEnterBattlefield (name (ev_card ev)))
         else Inr True)"

definition dropId :: "string \<Rightarrow> MTGCard list \<Rightarrow> MTGCard list" where
  "dropId i cs = filter (\<lambda>c. card_id c \<noteq> i) cs"

text \<open>
  \<open>removeCardFromZone\<close> and \<open>addCardToZone\<close> mutate the player state and game state
  they are given; here they return the updated game state. Their \<open>player\<close> argument is
  always \<open>players[event.player]\<close> of that game state, so it is passed as the key.
\<close>

definition removeCardFromZone :: "MTGCard \<Rightarrow> Zone \<Rightarrow> PlayerKey \<Rightarrow> GameState \<Rightarrow> GameState" where
  "removeCardFromZone crd z k gs =
     (let p = players gs k; i = card_id crd
      in case z of
        Hand \<Rightarrow> gs\<lparr>players := (players gs)(k := p\<lparr>hand := dropId i (hand p)\<rparr>)\<rparr>
      | Library \<Rightarrow> gs\<lparr>players := (players gs)(k := p\<lparr>library := dropId i (library p)\<rparr>)\<rparr>
      | Graveyard \<Rightarrow> gs\<lparr>players := (players gs)(k := p\<lparr>graveyard := dropId i (graveyard p)\<rparr>)\<rparr>
      | Exile \<Rightarrow> gs\<lparr>players := (players gs)(k := p\<lparr>exile := dropId i (exile p)\<rparr>)\<rparr>
      | Battlefield \<Rightarrow>
          if hasId i (battlefield gs Player)
          then gs\<lparr>battlefield := (battlefield gs)(Player := dropId i (battlefield gs Player))\<rparr>
          else gs\<lparr>battlefield := (battlefield gs)(Ai := dropId i (battlefield gs Ai))\<rparr>
      | Stack \<Rightarrow> gs\<lparr>stack := filter (\<lambda>obj. card_id (source obj) \<noteq> i) (stack gs)\<rparr>)"

text \<open>
  \<open>xs.splice(position, 0, card)\<close>: a negative position counts from the end, and the
  start index is clamped to the range from 0 to the length.
\<close>

definition spliceInsert :: "int \<Rightarrow> 'a \<Rightarrow> 'a list \<Rightarrow> 'a list" where
  "spliceInsert pos x xs =
     (let n = int (length xs);
          start = nat (if pos < 0 then max (n + pos) 0 else min pos n)
      in take start xs @ [x] @ drop start xs)"

definition addCardToZone ::
  "MTGCard \<Rightarrow> Zone \<Rightarrow> PlayerKey \<Rightarrow> GameState \<Rightarrow> int option \<Rightarrow> bool option \<Rightarrow> GameState" where
  "addCardToZone crd z k gs position faceDown =
     (let p = players gs k
      in case z of
        Hand \<Rightarrow>
          (case position of
             Some pos \<Rightarrow> gs\<lparr>players := (players gs)(k := p\<lparr>hand := spliceInsert pos crd (hand p)\<rparr>)\<rparr>
           | None \<Rightarrow> gs\<lparr>players := (players gs)(k := p\<lparr>hand := hand p @ [crd]\<rparr>)\<rparr>)
      | Library \<Rightarrow>
          (case position of
             Some pos \<Rightarrow>
               gs\<lparr>players := (players gs)(k := p\<lparr>library := spliceInsert pos crd (library p)\<rparr>)\<rparr>
           | None \<Rightarrow> gs\<lparr>players := (players gs)(k := p\<lparr>library := crd # library p\<rparr>)\<rparr>)
      | Graveyard \<Rightarrow> gs\<lparr>players := (players gs)(k := p\<lparr>graveyard := graveyard p @ [crd]\<rparr>)\<rparr>
      | Exile \<Rightarrow> gs\<lparr>players := (players gs)(k := p\<lparr>exile := exile p @ [crd]\<rparr>)\<rparr>
      | Battlefield \<Rightarrow> gs\<lparr>battlefield := (battlefield gs)(k := battlefield gs k @ [crd])\<rparr>
      | Stack \<Rightarrow> gs)"

text \<open>
  \<open>executeZoneChange\<close>: a rejected event throws before the snapshot is copied; an
  accepted one works on the deep copy \<open>JSON.parse(JSON.stringify(gameState))\<close>, which
  is the same value, and returns it.
\<close>

definition executeZoneChange :: "ZoneChangeEvent \<Rightarrow> GameState \<Rightarrow> ValidationError + GameState" where
  "executeZoneChange ev gs =
     (case validateZoneChange ev gs of
        Inl e \<Rightarrow> Inl e
      | Inr _ \<Rightarrow>
          Inr (addCardToZone (ev_card ev) (ev_to ev) (ev_player ev)
                 (removeCardFromZone (ev_card ev) (ev_from ev) (ev_player ev) gs)
                 (ev_position ev) (ev_faceDown ev)))"

text \<open>The transition table as the specification prints it, row by row.\<close>

definition transitionTable :: "(Zone \<times> Zone) set" where
  "transitionTable =
     {(Hand, Battlefield), (Hand, Graveyard), (Hand, Exile), (Hand, Library), (Hand, Stack),
      (Library, Hand), (Library, Graveyard), (Library, Exile), (Library, Battlefield),
      (Graveyard, Hand), (Graveyard, Library), (Graveyard, Exile), (Graveyard, Battlefield),
      (Graveyard, Stack),
      (Exile, Hand), (Exile, Library), (Exile, Graveyard), (Exile, Battlefield), (Exile, Stack),
      (Battlefield, Graveyard), (Battlefield, Exile), (Battlefield, Hand), (Battlefield, Library),
      (Stack, Graveyard), (Stack, Exile), (Stack, Battlefield), (Stack, Hand)}"

section \<open>Timing manager\<close>

datatype SpellSpeed = SorcerySpeed | InstantSpeed | AbilitySpeed

datatype TimingWindow = MainPhase | AnyTime | CombatOnly | UpkeepOnly

record TimingRestriction =
  speed :: SpellSpeed
  window :: TimingWindow
  stackEmpty :: bool
  activePlayer :: bool
  specialConditions :: "string list option"

text \<open>\<open>Partial<TimingRestriction>\<close>: every field may be absent.\<close>

record PartialTimingRestriction =
  p_speed :: "SpellSpeed option"
  p_window :: "TimingWindow option"
  p_stackEmpty :: "bool option"
  p_activePlayer :: "bool option"
  p_specialConditions :: "string list option"

definition checkSpeedTiming :: "SpellSpeed \<Rightarrow> GameState \<Rightarrow> bool" where
  "checkSpeedTiming sp gs =
     (case sp of
        InstantSpeed \<Rightarrow> True
      | SorcerySpeed \<Rightarrow> (phase gs = Main1 \<or> phase gs = Main2) \<and> length (stack gs) = 0
      | AbilitySpeed \<Rightarrow> True)"

definition checkWindowTiming :: "TimingWindow \<Rightarrow> GameState \<Rightarrow> bool" where
  "checkWindowTiming w gs =
     (case w of
        AnyTime \<Rightarrow> True
      | MainPhase \<Rightarrow> phase gs = Main1 \<or> phase gs = Main2
      | CombatOnly \<Rightarrow> phase gs = Combat
      | UpkeepOnly \<Rightarrow> phase gs = Upkeep)"

definition checkSpecialCondition :: "string \<Rightarrow> GameState \<Rightarrow> PlayerKey \<Rightarrow> bool" where
  "checkSpecialCondition cond gs pl =
     (if cond = ''only_your_turn'' then active_player gs = pl
      else if cond = ''only_opponent_turn'' then active_player gs \<noteq> pl
      else if cond = ''creatures_attacking''
        then (case combat gs of None \<Rightarrow> False | Some cb \<Rightarrow> length (attackers cb) > 0)
      else if cond = ''no_creatures_attacking''
        then (case combat gs of None \<Rightarrow> True | Some cb \<Rightarrow> length (attackers cb) = 0)
      else if cond = ''beginning_of_combat'' then phase gs = Combat \<and> step gs = None
      else if cond = ''end_of_turn'' then phase gs = End
      else True)"

definition validateTiming :: "TimingRestriction \<Rightarrow> GameState \<Rightarrow> PlayerKey \<Rightarrow> bool" where
  "validateTiming timing gs pl =
     (if \<not> checkSpeedTiming (speed timing) gs then False
      else if \<not> checkWindowTiming (window timing) gs then False
      else if stackEmpty timing \<and> length (stack gs) > 0 then False
      else if activePlayer timing \<and> active_player gs \<noteq> pl then False
      else if priority gs \<noteq> pl then False
      else (case specialConditions timing of
              None \<Rightarrow> True
            | Some conds \<Rightarrow> list_all (\<lambda>cond. checkSpecialCondition cond gs pl) conds))"

definition sorceryTiming :: "string list option \<Rightarrow> TimingRestriction" where
  "sorceryTiming sc =
     \<lparr>speed = SorcerySpeed, window = MainPhase, stackEmpty = True, activePlayer = True,
      specialConditions = sc\<rparr>"

definition getTypeBasedTiming :: "MTGCard \<Rightarrow> TimingRestriction" where
  "getTypeBasedTiming crd =
     (let typeLine = toLowerCase (type_line crd)
      in if strIncludes typeLine ''instant''
           then \<lparr>speed = InstantSpeed, window = AnyTime, stackEmpty = False, activePlayer = False,
                 specialConditions = None\<rparr>
         else if strIncludes typeLine ''sorcery'' then sorceryTiming None
         else if strIncludes typeLine ''creature'' \<or> strIncludes typeLine ''artifact'' \<or>
                 strIncludes typeLine ''enchantment'' \<or> strIncludes typeLine ''planeswalker''
           then sorceryTiming None
         else if strIncludes typeLine ''land'' then sorceryTiming (Some [''only_your_turn''])
         else sorceryTiming None)"

definition noRestrictions :: PartialTimingRestriction where
  "noRestrictions =
     \<lparr>p_speed = None, p_window = None, p_stackEmpty = None, p_activePlayer = None,
      p_specialConditions = None\<rparr>"

definition getTextBasedTiming :: "MTGCard \<Rightarrow> PartialTimingRestriction" where
  "getTextBasedTiming crd =
     (let text = (case oracle_text crd of None \<Rightarrow> [] | Some t \<Rightarrow> toLowerCase t);
          r0 = noRestrictions;
          r1 = (if strIncludes text ''flash''
                then r0\<lparr>p_speed := Some InstantSpeed, p_window := Some AnyTime,
                        p_stackEmpty := Some False, p_activePlayer := Some False\<rparr>
                else r0);
          r2 = (if strIncludes text ''can only be cast during combat''
                then r1\<lparr>p_window := Some CombatOnly\<rparr> else r1);
          r3 = (if strIncludes text ''can only be cast during your turn''
                then r2\<lparr>p_specialConditions := Some [''only_your_turn'']\<rparr> else r2);
          r4 = (if strIncludes text ''can only be cast during an opponent's turn''
                then r3\<lparr>p_specialConditions := Some [''only_opponent_turn'']\<rparr> else r3);
          r5 = (if strIncludes text ''can only be cast if a creature attacked this turn''
                then r4\<lparr>p_specialConditions := Some [''creatures_attacking'']\<rparr> else r4)
      in r5)"

definition orElse :: "'a option \<Rightarrow> 'a \<Rightarrow> 'a" where
  "orElse x d = (case x of None \<Rightarrow> d | Some v \<Rightarrow> v)"

definition getCardTiming :: "MTGCard \<Rightarrow> TimingRestriction" where
  "getCardTiming crd =
     (let typeRestrictions = getTypeBasedTiming crd;
          textRestrictions = getTextBasedTiming crd
      in \<lparr>speed = orElse (p_speed textRestrictions) (speed typeRestrictions),
          window = orElse (p_window textRestrictions) (window typeRestrictions),
          stackEmpty = orElse (p_stackEmpty textRestrictions) (stackEmpty typeRestrictions),
          activePlayer = orElse (p_activePlayer textRestrictions) (activePlayer typeRestrictions),
          specialConditions =
            Some (orElse (specialConditions typeRestrictions) [] @
                  orElse (p_specialConditions textRestrictions) [])\<rparr>)"

definition canCastSpell :: "MTGCard \<Rightarrow> GameState \<Rightarrow> PlayerKey \<Rightarrow> bool" where
  "canCastSpell crd gs pl = validateTiming (getCardTiming crd) gs pl"

definition canPlayLand :: "GameState \<Rightarrow> PlayerKey \<Rightarrow> bool" where
  "canPlayLand gs pl = validateTiming (sorceryTiming None) gs pl"

section \<open>Targeting manager\<close>

datatype TargetType =
  TCreature | TPlayer | TPlaneswalker | TSpell | TPermanent | TCardInGraveyard | TAny

record TargetRestriction =
  tr_type :: TargetType
  tr_count :: nat
  tr_optional :: bool
  restrictions :: "string list option"

record Target =
  target_id :: string
  target_type :: TargetType
  controller :: PlayerKey

definition notDot :: "char \<Rightarrow> bool" where
  "notDot c = (c \<noteq> CHR ''.'')"

text \<open>
  The regular expression \<open>/(target\s+[^.]*)/gi\<close> matches at a position where the word
  \<open>target\<close>, in any case, is followed by a white-space character.
\<close>

definition isTargetAt :: "string \<Rightarrow> bool" where
  "isTargetAt s =
     (toLowerCase (take 6 s) = ''target'' \<and>
      (case drop 6 s of [] \<Rightarrow> False | x # _ \<Rightarrow> isSpace x))"

text \<open>
  \<open>text.match(/(target\s+[^.]*)/gi)\<close>: all matches from left to right, each search
  starting where the match before ended. A match runs up to the next full stop or the end
  of the text (its first character is the \<open>t\<close> of \<open>target\<close>, so not a full stop).
\<close>

function targetMatches :: "string \<Rightarrow> string list" where
  "targetMatches [] = []"
| "targetMatches (c # cs) =
     (if isTargetAt (c # cs)
      then (c # takeWhile notDot cs) # targetMatches (dropWhile notDot cs)
      else targetMatches cs)"
  by pat_completeness auto
termination
  by (relation "measure length") (auto simp: le_imp_less_Suc length_dropWhile_le)

text \<open>
  \<open>text.match(/(\w+)\s+target/)\<close>, the first capture group of the leftmost match: at a
  position the greedy \<open>\w+\<close> and \<open>\s+\<close> can only take the whole run of word characters
  and the whole run of white space, since the character after a shorter run is of the
  same class.
\<close>

definition countWordAt :: "string \<Rightarrow> string option" where
  "countWordAt s =
     (let w = takeWhile isWordChar s;
          r = dropWhile isWordChar s
      in if w \<noteq> [] \<and> takeWhile isSpace r \<noteq> [] \<and> startsWith (dropWhile isSpace r) ''target''
         then Some w else None)"

fun countMatch :: "string \<Rightarrow> string option" where
  "countMatch [] = None"
| "countMatch (c # cs) =
     (case countWordAt (c # cs) of Some w \<Rightarrow> Some w | None \<Rightarrow> countMatch cs)"

text \<open>\<open>text.match(/up to (\w+)/)\<close>, the first capture group of the leftmost match.\<close>

fun upMatch :: "string \<Rightarrow> string option" where
  "upMatch [] = None"
| "upMatch (c # cs) =
     (if startsWith (c # cs) ''up to '' \<and> takeWhile isWordChar (drop 6 (c # cs)) \<noteq> []
      then Some (takeWhile isWordChar (drop 6 (c # cs)))
      else upMatch cs)"

definition parseTargetClause :: "string \<Rightarrow> TargetRestriction option" where
  "parseTargetClause clause =
     (let text = toLowerCase clause;
          ty = (if strIncludes text ''creature'' then TCreature
                else if strIncludes text ''player'' then TPlayer
                else if strIncludes text ''planeswalker'' then TPlaneswalker
                else if strIncludes text ''spell'' then TSpell
                else if strIncludes text ''permanent'' then TPermanent
                else if strIncludes text ''card in'' \<and> strIncludes text ''graveyard''
                  then TCardInGraveyard
                else TAny);
          (cnt, opt) =
            (case countMatch text of
               None \<Rightarrow> (1, False)
             | Some countWord \<Rightarrow>
                 if countWord = ''one'' \<or> countWord = ''a'' \<or> countWord = ''target'' then (1, False)
                 else if countWord = ''two'' then (2, False)
                 else if countWord = ''three'' then (3, False)
                 else if countWord = ''up''
                   then (case upMatch text of
                           None \<Rightarrow> (1, True)
                         | Some w \<Rightarrow>
                             if w = ''one'' then (1, True)
                             else if w = ''two'' then (2, True)
                             else if w = ''three'' then (3, True)
                             else (1, True))
                 else (1, False));
          rs = (if strIncludes text ''you control'' then [''you_control''] else []) @
               (if strIncludes text ''you don't control'' \<or> strIncludes text ''an opponent controls''
                then [''opponent_controls''] else []) @
               (if strIncludes text ''attacking'' then [''attacking''] else []) @
               (if strIncludes text ''blocking'' then [''blocking''] else []) @
               (if strIncludes text ''tapped'' then [''tapped''] else []) @
               (if strIncludes text ''untapped'' then [''untapped''] else []) @
               (if strIncludes text ''nonland'' then [''nonland''] else []) @
               (if strIncludes text ''non-creature'' then [''non-creature''] else [])
      in Some \<lparr>tr_type = ty, tr_count = cnt, tr_optional = opt, restrictions = Some rs\<rparr>)"

definition parseTargetRequirements :: "MTGCard \<Rightarrow> TargetRestriction list" where
  "parseTargetRequirements crd =
     (let text = orElse (oracle_text crd) []
      in List.map_filter parseTargetClause (targetMatches text))"

fun findById :: "string \<Rightarrow> MTGCard list \<Rightarrow> MTGCard option" where
  "findById i [] = None"
| "findById i (c # cs) = (if card_id c = i then Some c else findById i cs)"

fun firstSome :: "('a \<Rightarrow> 'b option) \<Rightarrow> 'a list \<Rightarrow> 'b option" where
  "firstSome f [] = None"
| "firstSome f (x # xs) = (case f x of Some y \<Rightarrow> Some y | None \<Rightarrow> firstSome f xs)"

definition findCardById :: "string \<Rightarrow> GameState \<Rightarrow> MTGCard option" where
  "findCardById i gs =
     (case firstSome (\<lambda>k. findById i (battlefield gs k)) playerKeys of
        Some c \<Rightarrow> Some c
      | None \<Rightarrow>
         (case firstSome (\<lambda>k. firstSome (findById i)
                  [hand (players gs k), graveyard (players gs k), exile (players gs k)])
                 playerKeys of
            Some c \<Rightarrow> Some c
          | None \<Rightarrow> map_option source (find (\<lambda>obj. card_id (source obj) = i) (stack gs))))"

definition isCreatureOpt :: "MTGCard option \<Rightarrow> bool" where
  "isCreatureOpt c =
     (case c of None \<Rightarrow> False | Some crd \<Rightarrow> strIncludes (toLowerCase (type_line crd)) ''creature'')"

definition isPlaneswalkerOpt :: "MTGCard option \<Rightarrow> bool" where
  "isPlaneswalkerOpt c =
     (case c of None \<Rightarrow> False
      | Some crd \<Rightarrow> strIncludes (toLowerCase (type_line crd)) ''planeswalker'')"

definition isLandOpt :: "MTGCard option \<Rightarrow> bool" where
  "isLandOpt c =
     (case c of None \<Rightarrow> False | Some crd \<Rightarrow> strIncludes (toLowerCase (type_line crd)) ''land'')"

definition validateRestriction :: "string \<Rightarrow> Target \<Rightarrow> GameState \<Rightarrow> bool" where
  "validateRestriction restriction target gs =
     (if restriction = ''you_control'' then controller target = Player
      else if restriction = ''opponent_controls'' then controller target = Ai
      else if restriction = ''attacking''
        then (case combat gs of
                None \<Rightarrow> False
              | Some cb \<Rightarrow> list_ex (\<lambda>attacker. cc_id attacker = target_id target) (attackers cb))
      else if restriction = ''blocking''
        then (case combat gs of
                None \<Rightarrow> False
              | Some cb \<Rightarrow> list_ex (\<lambda>blocker. blocker_id blocker = target_id target) (blockers cb))
      else if restriction = ''tapped'' then True
      else if restriction = ''untapped'' then True
      else if restriction = ''nonland'' then \<not> isLandOpt (findCardById (target_id target) gs)
      else if restriction = ''non-creature''
        then \<not> isCreatureOpt (findCardById (target_id target) gs)
      else True)"

definition targetExists :: "Target \<Rightarrow> GameState \<Rightarrow> bool" where
  "targetExists target gs =
     (if target_type target = TPlayer
      then target_id target = ''player'' \<or> target_id target = ''ai''
      else findCardById (target_id target) gs \<noteq> None)"

definition validateSingleTarget :: "TargetRestriction \<Rightarrow> Target \<Rightarrow> GameState \<Rightarrow> bool" where
  "validateSingleTarget requirement target gs =
     (if \<not> targetExists target gs then False
      else if tr_type requirement \<noteq> TAny \<and> tr_type requirement \<noteq> target_type target then False
      else (case restrictions requirement of
              None \<Rightarrow> True
            | Some rs \<Rightarrow> list_all (\<lambda>r. validateRestriction r target gs) rs))"

definition validateTargets :: "MTGCard \<Rightarrow> Target list \<Rightarrow> GameState \<Rightarrow> bool" where
  "validateTargets crd targets gs =
     (let requirements = parseTargetRequirements crd
      in if length requirements = 0 \<and> length targets = 0 then True
         else if length requirements \<noteq> length targets then False
         else list_all (\<lambda>(requirement, target). validateSingleTarget requirement target gs)
                (zip requirements targets))"

definition keyName :: "PlayerKey \<Rightarrow> string" where
  "keyName k = (case k of Player \<Rightarrow> ''player'' | Ai \<Rightarrow> ''ai'')"

definition battlefieldTargets :: "(MTGCard \<Rightarrow> bool) \<Rightarrow> TargetType \<Rightarrow> GameState \<Rightarrow> Target list" where
  "battlefieldTargets keep ty gs =
     concat (map (\<lambda>k. map (\<lambda>crd. \<lparr>target_id = card_id crd, target_type = ty, controller = k\<rparr>)
                         (filter keep (battlefield gs k)))
                 playerKeys)"

definition findCreatureTargets :: "GameState \<Rightarrow> TargetRestriction \<Rightarrow> PlayerKey \<Rightarrow> Target list" where
  "findCreatureTargets gs requirement ctl =
     battlefieldTargets (\<lambda>crd. isCreatureOpt (Some crd)) TCreature gs"

definition findPlayerTargets :: "GameState \<Rightarrow> TargetRestriction \<Rightarrow> PlayerKey \<Rightarrow> Target list" where
  "findPlayerTargets gs requirement ctl =
     [\<lparr>target_id = ''player'', target_type = TPlayer, controller = Player\<rparr>,
      \<lparr>target_id = ''ai'', target_type = TPlayer, controller = Ai\<rparr>]"

definition findPlaneswalkerTargets :: "GameState \<Rightarrow> TargetRestriction \<Rightarrow> PlayerKey \<Rightarrow> Target list" where
  "findPlaneswalkerTargets gs requirement ctl =
     battlefieldTargets (\<lambda>crd. isPlaneswalkerOpt (Some crd)) TPlaneswalker gs"

definition findPermanentTargets :: "GameState \<Rightarrow> TargetRestriction \<Rightarrow> PlayerKey \<Rightarrow> Target list" where
  "findPermanentTargets gs requirement ctl = battlefieldTargets (\<lambda>crd. True) TPermanent gs"

definition findSpellTargets :: "GameState \<Rightarrow> TargetRestriction \<Rightarrow> PlayerKey \<Rightarrow> Target list" where
  "findSpellTargets gs requirement ctl =
     map (\<lambda>obj. \<lparr>target_id = so_id obj, target_type = TSpell, controller = so_controller obj\<rparr>)
         (stack gs)"

definition findGraveyardTargets :: "GameState \<Rightarrow> TargetRestriction \<Rightarrow> PlayerKey \<Rightarrow> Target list" where
  "findGraveyardTargets gs requirement ctl =
     concat (map (\<lambda>k. map (\<lambda>crd. \<lparr>target_id = card_id crd, target_type = TCardInGraveyard,
                                   controller = k\<rparr>)
                         (graveyard (players gs k)))
                 playerKeys)"

definition findValidTargetsForRequirement ::
  "TargetRestriction \<Rightarrow> GameState \<Rightarrow> PlayerKey \<Rightarrow> Target list" where
  "findValidTargetsForRequirement requirement gs ctl =
     (let targets =
            (case tr_type requirement of
               TCreature \<Rightarrow> findCreatureTargets gs requirement ctl
             | TPlayer \<Rightarrow> findPlayerTargets gs requirement ctl
             | TPlaneswalker \<Rightarrow> findPlaneswalkerTargets gs requirement ctl
             | TPermanent \<Rightarrow> findPermanentTargets gs requirement ctl
             | TSpell \<Rightarrow> findSpellTargets gs requirement ctl
             | TCardInGraveyard \<Rightarrow> findGraveyardTargets gs requirement ctl
             | TAny \<Rightarrow> [])
      in filter (\<lambda>target.
                   case restrictions requirement of
                     None \<Rightarrow> True
                   | Some rs \<Rightarrow> list_all (\<lambda>r. validateRestriction r target gs) rs)
                targets)"

definition getValidTargets :: "MTGCard \<Rightarrow> GameState \<Rightarrow> PlayerKey \<Rightarrow> Target list" where
  "getValidTargets crd gs pl =
     concat (map (\<lambda>requirement. findValidTargetsForRequirement requirement gs pl)
                 (parseTargetRequirements crd))"

section \<open>State-based action manager\<close>

text \<open>
  The \<open>type\<close> of a \<open>StateBasedAction\<close> is a string in the source; the eleven values
  that the checks produce and \<open>executeAction\<close> distinguishes are the constructors here.
\<close>

datatype ActionKind =
    player_loses_life | player_loses_library | player_loses_poison
  | creature_dies_toughness | creature_dies_damage | creature_dies_deathtouch
  | planeswalker_dies | legend_rule_violation | world_rule_violation
  | aura_unattached | equipment_unattached

datatype DataValue = IntVal int | StrVal string | Undefined

record StateBasedAction =
  sba_type :: ActionKind
  description :: string
  affectedCards :: "MTGCard list option"
  affectedPlayer :: "PlayerKey option"
  sba_data :: "(string \<times> DataValue) list option"

definition digitVal :: "char \<Rightarrow> int" where
  "digitVal c = int (of_char c) - 48"

definition digitsVal :: "string \<Rightarrow> int" where
  "digitsVal ds = foldl (\<lambda>acc d. 10 * acc + digitVal d) 0 ds"

text \<open>
  \<open>parseInt(s, 10)\<close>: leading white space is skipped, a sign is read, then the longest
  run of digits; \<open>None\<close> stands for \<open>NaN\<close> (no digit there). The result here is the
  exact integer. \<open>parseInt\<close> returns a double: the same number up to \<open>2^53\<close>, and
  beyond it a rounded one of the same sign, so that only the number recorded in the data of
  an action can differ, never which actions are made.
\<close>

definition parseInt10 :: "string \<Rightarrow> int option" where
  "parseInt10 s =
     (let s1 = dropWhile isSpace s;
          neg = startsWith s1 ''-'' \<and> s1 \<noteq> [];
          s2 = (if s1 \<noteq> [] \<and> (hd s1 = CHR ''-'' \<or> hd s1 = CHR ''+'') then tl s1 else s1);
          ds = takeWhile isDigit s2
      in if ds = [] then None else Some (if neg then - digitsVal ds else digitsVal ds))"

definition countPoisonCounters :: "PlayerState \<Rightarrow> int" where
  "countPoisonCounters p = 0"

definition isCreature :: "MTGCard \<Rightarrow> bool" where
  "isCreature crd = strIncludes (toLowerCase (type_line crd)) ''creature''"

definition isPlaneswalker :: "MTGCard \<Rightarrow> bool" where
  "isPlaneswalker crd = strIncludes (toLowerCase (type_line crd)) ''planeswalker''"

definition isLegendary :: "MTGCard \<Rightarrow> bool" where
  "isLegendary crd = strIncludes (toLowerCase (type_line crd)) ''legendary''"

definition isWorld :: "MTGCard \<Rightarrow> bool" where
  "isWorld crd = strIncludes (toLowerCase (type_line crd)) ''world''"

definition isAura :: "MTGCard \<Rightarrow> bool" where
  "isAura crd =
     (let typeLine = toLowerCase (type_line crd)
      in strIncludes typeLine ''enchantment'' \<and> strIncludes typeLine ''aura'')"

definition isEquipment :: "MTGCard \<Rightarrow> bool" where
  "isEquipment crd =
     (let typeLine = toLowerCase (type_line crd)
      in strIncludes typeLine ''artifact'' \<and> strIncludes typeLine ''equipment'')"

text \<open>\<open>card.toughness ? parseInt(card.toughness, 10) || 0 : 0\<close>.\<close>

definition getCreatureToughness :: "MTGCard \<Rightarrow> int" where
  "getCreatureToughness crd =
     (case toughness crd of
        None \<Rightarrow> 0
      | Some t \<Rightarrow> if t = [] then 0 else orElse (parseInt10 t) 0)"

definition getCreatureDamage :: "MTGCard \<Rightarrow> int" where
  "getCreatureDamage crd = 0"

definition hasDeathtouch :: "MTGCard \<Rightarrow> bool" where
  "hasDeathtouch crd = strIncludes (toLowerCase (orElse (oracle_text crd) [])) ''deathtouch''"

text \<open>
  \<open>/\[([+-]?\d+)\]/\<close> at one position: an opening bracket, an optional sign, the whole
  run of digits, a closing bracket; the capture group is the sign and the digits.
\<close>

definition loyaltyAt :: "string \<Rightarrow> string option" where
  "loyaltyAt s =
     (case s of
        [] \<Rightarrow> None
      | b # r \<Rightarrow>
          if b \<noteq> CHR ''['' then None
          else (let sg = (if r \<noteq> [] \<and> (hd r = CHR ''+'' \<or> hd r = CHR ''-'') then [hd r] else []);
                    r1 = drop (length sg) r;
                    ds = takeWhile isDigit r1
                in if ds \<noteq> [] \<and> startsWith (dropWhile isDigit r1) '']''
                   then Some (sg @ ds) else None))"

fun loyaltyMatch :: "string \<Rightarrow> string option" where
  "loyaltyMatch [] = None"
| "loyaltyMatch (c # cs) =
     (case loyaltyAt (c # cs) of Some m \<Rightarrow> Some m | None \<Rightarrow> loyaltyMatch cs)"

definition getPlaneswalkerLoyalty :: "MTGCard \<Rightarrow> int" where
  "getPlaneswalkerLoyalty crd =
     (case oracle_text crd of
        None \<Rightarrow> 0
      | Some t \<Rightarrow> (case loyaltyMatch t of None \<Rightarrow> 0 | Some m \<Rightarrow> orElse (parseInt10 m) 0))"

text \<open>
  \<open>name.split(' // ')[0]\<close>: the text before the first occurrence of the separator, the
  whole text when there is none.
\<close>

fun beforeSep :: "string \<Rightarrow> string \<Rightarrow> string" where
  "beforeSep sep [] = []"
| "beforeSep sep (c # cs) = (if startsWith (c # cs) sep then [] else c # beforeSep sep cs)"

definition getLegendaryName :: "MTGCard \<Rightarrow> string" where
  "getLegendaryName crd =
     (let front = beforeSep '' // '' (name crd) in if front = [] then name crd else front)"

definition getAttachmentTarget :: "MTGCard \<Rightarrow> MTGCard option" where
  "getAttachmentTarget crd = None"

definition isValidAttachmentTarget :: "MTGCard \<Rightarrow> MTGCard \<Rightarrow> GameState \<Rightarrow> bool" where
  "isValidAttachmentTarget aura target gs = True"

definition isValidEquipmentTarget :: "MTGCard \<Rightarrow> MTGCard \<Rightarrow> GameState \<Rightarrow> bool" where
  "isValidEquipmentTarget equipment target gs = isCreature target"

definition checkPlayerStateActions :: "GameState \<Rightarrow> StateBasedAction list" where
  "checkPlayerStateActions gs =
     concat (map (\<lambda>k.
       let p = players gs k
       in (if life p \<le> 0
           then [\<lparr>sba_type = player_loses_life,
                  description = keyName k @ '' loses the game (life total 0 or less)'',
                  affectedCards = None, affectedPlayer = Some k,
                  sba_data = Some [(''life'', IntVal (life p))]\<rparr>]
           else []) @
          (if length (library p) = 0
           then [\<lparr>sba_type = player_loses_library,
                  description = keyName k @ '' loses the game (cannot draw from empty library)'',
                  affectedCards = None, affectedPlayer = Some k, sba_data = None\<rparr>]
           else []) @
          (if countPoisonCounters p \<ge> 10
           then [\<lparr>sba_type = player_loses_poison,
                  description = keyName k @ '' loses the game (10 or more poison counters)'',
                  affectedCards = None, affectedPlayer = Some k,
                  sba_data = Some [(''poisonCounters'', IntVal (countPoisonCounters p))]\<rparr>]
           else []))
       playerKeys)"

definition creatureActions :: "MTGCard \<Rightarrow> StateBasedAction list" where
  "creatureActions creature =
     (if \<not> isCreature creature then []
      else
        (let tough = getCreatureToughness creature;
             damage = getCreatureDamage creature
         in (if tough \<le> 0
             then [\<lparr>sba_type = creature_dies_toughness,
                    description = name creature @ '' is put into graveyard (0 toughness)'',
                    affectedCards = Some [creature], affectedPlayer = None,
                    sba_data = Some [(''toughness'', IntVal tough),
                                     (''reason'', StrVal ''0_toughness'')]\<rparr>]
             else if damage \<ge> tough
             then [\<lparr>sba_type = creature_dies_damage,
                    description = name creature @ '' is destroyed (lethal damage)'',
                    affectedCards = Some [creature], affectedPlayer = None,
                    sba_data = Some [(''damage'', IntVal damage), (''toughness'', IntVal tough),
                                     (''reason'', StrVal ''lethal_damage'')]\<rparr>]
             else []) @
            (if hasDeathtouch creature \<and> damage > 0
             then [\<lparr>sba_type = creature_dies_deathtouch,
                    description = name creature @ '' is destroyed (deathtouch damage)'',
                    affectedCards = Some [creature], affectedPlayer = None,
                    sba_data = Some [(''damage'', IntVal damage),
                                     (''reason'', StrVal ''deathtouch'')]\<rparr>]
             else [])))"

definition checkCreatureStateActions :: "GameState \<Rightarrow> StateBasedAction list" where
  "checkCreatureStateActions gs =
     concat (map (\<lambda>k. concat (map creatureActions (battlefield gs k))) playerKeys)"

definition planeswalkerActions :: "MTGCard \<Rightarrow> StateBasedAction list" where
  "planeswalkerActions pw =
     (if \<not> isPlaneswalker pw then []
      else (let loyalty = getPlaneswalkerLoyalty pw
            in if loyalty \<le> 0
               then [\<lparr>sba_type = planeswalker_dies,
                      description = name pw @ '' is put into graveyard (0 loyalty)'',
                      affectedCards = Some [pw], affectedPlayer = None,
                      sba_data = Some [(''loyalty'', IntVal loyalty)]\<rparr>]
               else []))"

definition checkPlaneswalkerStateActions :: "GameState \<Rightarrow> StateBasedAction list" where
  "checkPlaneswalkerStateActions gs =
     concat (map (\<lambda>k. concat (map planeswalkerActions (battlefield gs k))) playerKeys)"

text \<open>
  \<open>legendsByName\<close> is a \<open>Map\<close> from names to lists of cards, iterated in the order in
  which the names were first inserted: an association list. \<open>addLegend\<close> is one round
  of the loop over the permanents of a battlefield.
\<close>

fun pushLegend :: "string \<Rightarrow> MTGCard \<Rightarrow> (string \<times> MTGCard list) list \<Rightarrow> (string \<times> MTGCard list) list" where
  "pushLegend nm crd [] = [(nm, [crd])]"
| "pushLegend nm crd ((k, v) # m) =
     (if k = nm then (k, v @ [crd]) # m else (k, v) # pushLegend nm crd m)"

definition addLegend :: "(string \<times> MTGCard list) list \<Rightarrow> MTGCard \<Rightarrow> (string \<times> MTGCard list) list" where
  "addLegend m permanent =
     (if isLegendary permanent then pushLegend (getLegendaryName permanent) permanent m else m)"

definition legendsByName :: "MTGCard list \<Rightarrow> (string \<times> MTGCard list) list" where
  "legendsByName bf = foldl addLegend [] bf"

definition legendAction :: "string \<times> MTGCard list \<Rightarrow> StateBasedAction list" where
  "legendAction e =
     (case e of (nm, legends) \<Rightarrow>
        if length legends > 1
        then [\<lparr>sba_type = legend_rule_violation,
               description = ''Legend rule: duplicate '' @ nm @ '' permanents destroyed'',
               affectedCards = Some (drop 1 legends), affectedPlayer = None,
               sba_data = Some [(''legendName'', StrVal nm),
                                (''count'', IntVal (int (length legends)))]\<rparr>]
        else [])"

definition legendRuleFor :: "MTGCard list \<Rightarrow> StateBasedAction list" where
  "legendRuleFor bf = concat (map legendAction (legendsByName bf))"

definition checkLegendRuleActions :: "GameState \<Rightarrow> StateBasedAction list" where
  "checkLegendRuleActions gs = concat (map (\<lambda>k. legendRuleFor (battlefield gs k)) playerKeys)"

definition checkWorldRuleActions :: "GameState \<Rightarrow> StateBasedAction list" where
  "checkWorldRuleActions gs =
     (let worldPermanents = concat (map (\<lambda>k. filter isWorld (battlefield gs k)) playerKeys)
      in if length worldPermanents > 1
         then [\<lparr>sba_type = world_rule_violation,
                description = ''World rule: all world permanents destroyed'',
                affectedCards = Some worldPermanents, affectedPlayer = None,
                sba_data = Some [(''count'', IntVal (int (length worldPermanents)))]\<rparr>]
         else [])"

definition auraActions :: "GameState \<Rightarrow> MTGCard \<Rightarrow> StateBasedAction list" where
  "auraActions gs aura =
     (if \<not> isAura aura then []
      else (let attachedTo = getAttachmentTarget aura
            in if (case attachedTo of
                     None \<Rightarrow> True
                   | Some t \<Rightarrow> \<not> isValidAttachmentTarget aura t gs)
               then [\<lparr>sba_type = aura_unattached,
                      description =
                        name aura @ '' is put into graveyard (not attached to legal object)'',
                      affectedCards = Some [aura], affectedPlayer = None,
                      sba_data = Some [(''attachedTo'',
                                        case attachedTo of
                                          None \<Rightarrow> Undefined
                                        | Some t \<Rightarrow> StrVal (card_id t))]\<rparr>]
               else []))"

definition checkAuraStateActions :: "GameState \<Rightarrow> StateBasedAction list" where
  "checkAuraStateActions gs =
     concat (map (\<lambda>k. concat (map (auraActions gs) (battlefield gs k))) playerKeys)"

definition equipmentActions :: "GameState \<Rightarrow> MTGCard \<Rightarrow> StateBasedAction list" where
  "equipmentActions gs equipment =
     (if \<not> isEquipment equipment then []
      else (case getAttachmentTarget equipment of
              None \<Rightarrow> []
            | Some t \<Rightarrow>
                if \<not> isValidEquipmentTarget equipment t gs
                then [\<lparr>sba_type = equipment_unattached,
                       description =
                         name equipment @ '' becomes unattached (attached to illegal creature)'',
                       affectedCards = Some [equipment], affectedPlayer = None,
                       sba_data = Some [(''attachedTo'', StrVal (card_id t))]\<rparr>]
                else []))"

definition checkEquipmentStateActions :: "GameState \<Rightarrow> StateBasedAction list" where
  "checkEquipmentStateActions gs =
     concat (map (\<lambda>k. concat (map (equipmentActions gs) (battlefield gs k))) playerKeys)"

definition checkStateBasedActions :: "GameState \<Rightarrow> StateBasedAction list" where
  "checkStateBasedActions gs =
     checkPlayerStateActions gs @ checkCreatureStateActions gs @
     checkPlaneswalkerStateActions gs @ checkLegendRuleActions gs @
     checkWorldRuleActions gs @ checkAuraStateActions gs @ checkEquipmentStateActions gs"







section \<open>Rules engine\<close>

text \<open>
  The \<open>errors\<close> of a \<open>RuleValidationResult\<close> are message strings built from
  templates; a \<open>Violation\<close> is one template with the values put into it.
\<close>

datatype Violation =
    CardIdRequiredForCast
  | CardNotFoundInHand
  | CannotCastAtTiming string
  | InsufficientMana string
  | InvalidTargets string
  | CardIdRequiredForLand
  | NotALand string
  | CannotPlayLandAtTiming
  | NotDeclareAttackersStep
  | OnlyActivePlayerAttacks
  | NotDeclareBlockersStep
  | OnlyDefendingPlayerBlocks
  | NoPriority
  | UnknownActionType string
  | BannedIn string string
  | RestrictedIn string string
  | NotLegalIn string string
  | TooManyCopies string int int
  | DeckTooSmall int int
  | DeckTooLarge int int
  | DeckNotExact int int
  | CommanderMissing

record RuleValidationResult =
  isValid :: bool
  errors :: "Violation list"
  warnings :: "string list option"

text \<open>
  The action types of \<open>GameAction\<close>; \<open>other_action\<close> stands for any other string,
  which \<open>validateAction\<close> sends to its default branch.
\<close>

datatype ActionType =
    cast_spell | activate_ability | declare_attackers | declare_blockers | play_land
  | pass_priority | other_action string

datatype Color = White | Blue | Black | Red | Green | Colorless

text \<open>\<open>Partial<ManaPool>\<close>: every counter may be absent.\<close>

record PartialManaPool =
  pay_white :: "int option"
  pay_blue :: "int option"
  pay_black :: "int option"
  pay_red :: "int option"
  pay_green :: "int option"
  pay_colorless :: "int option"

record GameAction =
  act_type :: ActionType
  act_player :: PlayerKey
  cardId :: "string option"
  targets :: "string list option"
  manaPayment :: "PartialManaPool option"

definition colorKeys :: "Color list" where
  "colorKeys = [White, Blue, Black, Red, Green, Colorless]"

fun poolGet :: "ManaPool \<Rightarrow> Color \<Rightarrow> int" where
  "poolGet m White = white m"
| "poolGet m Blue = blue m"
| "poolGet m Black = black m"
| "poolGet m Red = red m"
| "poolGet m Green = green m"
| "poolGet m Colorless = colorless m"

fun payGet :: "PartialManaPool \<Rightarrow> Color \<Rightarrow> int option" where
  "payGet m White = pay_white m"
| "payGet m Blue = pay_blue m"
| "payGet m Black = pay_black m"
| "payGet m Red = pay_red m"
| "payGet m Green = pay_green m"
| "payGet m Colorless = pay_colorless m"

definition emptyPayment :: PartialManaPool where
  "emptyPayment =
     \<lparr>pay_white = None, pay_blue = None, pay_black = None, pay_red = None, pay_green = None,
      pay_colorless = None\<rparr>"

definition addError :: "Violation \<Rightarrow> RuleValidationResult \<Rightarrow> RuleValidationResult" where
  "addError e r = r\<lparr>errors := errors r @ [e], isValid := False\<rparr>"

definition addSymbol :: "ManaPool \<Rightarrow> char \<Rightarrow> ManaPool" where
  "addSymbol cost symbol =
     (let l = lowerChar symbol
      in if l = CHR ''w'' then cost\<lparr>white := white cost + 1\<rparr>
         else if l = CHR ''u'' then cost\<lparr>blue := blue cost + 1\<rparr>
         else if l = CHR ''b'' then cost\<lparr>black := black cost + 1\<rparr>
         else if l = CHR ''r'' then cost\<lparr>red := red cost + 1\<rparr>
         else if l = CHR ''g'' then cost\<lparr>green := green cost + 1\<rparr>
         else if isDigit symbol then cost\<lparr>colorless := colorless cost + digitVal symbol\<rparr>
         else cost)"

definition parseManaCost :: "string \<Rightarrow> ManaPool" where
  "parseManaCost manaCost =
     foldl addSymbol \<lparr>white = 0, blue = 0, black = 0, red = 0, green = 0, colorless = 0\<rparr>
       (filter (\<lambda>c. c \<noteq> CHR ''{'' \<and> c \<noteq> CHR ''}'') manaCost)"

definition paid :: "PartialManaPool \<Rightarrow> Color \<Rightarrow> int" where
  "paid payment color = orElse (payGet payment color) 0"

definition validateManaCost :: "MTGCard \<Rightarrow> PartialManaPool \<Rightarrow> ManaPool \<Rightarrow> bool" where
  "validateManaCost crd payment availableMana =
     (case mana_cost crd of
        None \<Rightarrow> True
      | Some mc \<Rightarrow>
          if mc = [] then True
          else
            (let requiredMana = parseManaCost mc;
                 totalRequired = sum_list (map (poolGet requiredMana) colorKeys);
                 totalPayment = sum_list (map (paid payment) colorKeys);
                 totalAvailable = sum_list (map (poolGet availableMana) colorKeys)
             in if totalPayment \<noteq> totalRequired \<or> totalPayment > totalAvailable then False
                else list_all
                       (\<lambda>color. \<not> (paid payment color > poolGet availableMana color \<or>
                                    (color \<noteq> Colorless \<and>
                                     paid payment color < poolGet requiredMana color)))
                       colorKeys))"

text \<open>\<open>(text.match(/target/gi) || []).length\<close>: the matches do not overlap.\<close>

fun countTargetWords :: "string \<Rightarrow> nat" where
  "countTargetWords [] = 0"
| "countTargetWords (c # cs) =
     (if toLowerCase (take 6 (c # cs)) = ''target'' then Suc (countTargetWords (drop 5 cs))
      else countTargetWords cs)"

definition engineValidateTargets :: "MTGCard \<Rightarrow> string list \<Rightarrow> GameState \<Rightarrow> bool" where
  "engineValidateTargets crd tgts gs =
     (case oracle_text crd of
        None \<Rightarrow> True
      | Some t \<Rightarrow> if t = [] then True else length tgts = countTargetWords t)"

definition isInstant :: "MTGCard \<Rightarrow> bool" where
  "isInstant crd = strIncludes (toLowerCase (type_line crd)) ''instant''"

definition isSorcery :: "MTGCard \<Rightarrow> bool" where
  "isSorcery crd = strIncludes (toLowerCase (type_line crd)) ''sorcery''"

definition isPermanent :: "MTGCard \<Rightarrow> bool" where
  "isPermanent crd =
     (let types = toLowerCase (type_line crd)
      in strIncludes types ''creature'' \<or> strIncludes types ''artifact'' \<or>
         strIncludes types ''enchantment'' \<or> strIncludes types ''planeswalker'' \<or>
         strIncludes types ''land'')"

definition canCastAtCurrentTiming :: "MTGCard \<Rightarrow> GameState \<Rightarrow> bool" where
  "canCastAtCurrentTiming crd gs =
     (if isInstant crd then True
      else if isSorcery crd \<or> isPermanent crd
        then (phase gs = Main1 \<or> phase gs = Main2) \<and> length (stack gs) = 0
      else False)"

definition canPlayLandAtCurrentTiming :: "GameState \<Rightarrow> bool" where
  "canPlayLandAtCurrentTiming gs =
     ((phase gs = Main1 \<or> phase gs = Main2) \<and> length (stack gs) = 0)"

definition findCardInHand :: "string \<Rightarrow> PlayerState \<Rightarrow> MTGCard option" where
  "findCardInHand cid p = findById cid (hand p)"

definition validateSpellCast ::
  "GameAction \<Rightarrow> GameState \<Rightarrow> RuleValidationResult \<Rightarrow> RuleValidationResult" where
  "validateSpellCast action gs result =
     (if orElse (cardId action) [] = [] then addError CardIdRequiredForCast result
      else
        (let p = players gs (act_player action)
         in case findCardInHand (orElse (cardId action) []) p of
              None \<Rightarrow> addError CardNotFoundInHand result
            | Some crd \<Rightarrow>
                (let r1 = (if \<not> canCastAtCurrentTiming crd gs
                           then addError (CannotCastAtTiming (name crd)) result else result);
                     r2 = (if \<not> validateManaCost crd (orElse (manaPayment action) emptyPayment)
                                  (mana_pool p)
                           then addError (InsufficientMana (name crd)) r1 else r1);
                     r3 = (if (case targets action of
                                 None \<Rightarrow> False
                               | Some ts \<Rightarrow> \<not> engineValidateTargets crd ts gs)
                           then addError (InvalidTargets (name crd)) r2 else r2)
                 in r3)))"

definition validateLandPlay ::
  "GameAction \<Rightarrow> GameState \<Rightarrow> RuleValidationResult \<Rightarrow> RuleValidationResult" where
  "validateLandPlay action gs result =
     (if orElse (cardId action) [] = [] then addError CardIdRequiredForLand result
      else
        (let p = players gs (act_player action)
         in case findCardInHand (orElse (cardId action) []) p of
              None \<Rightarrow> addError CardNotFoundInHand result
            | Some crd \<Rightarrow>
                (let r1 = (if \<not> isLand crd then addError (NotALand (name crd)) result else result);
                     r2 = (if \<not> canPlayLandAtCurrentTiming gs
                           then addError CannotPlayLandAtTiming r1 else r1)
                 in r2)))"

definition validateAbilityActivation ::
  "GameAction \<Rightarrow> GameState \<Rightarrow> RuleValidationResult \<Rightarrow> RuleValidationResult" where
  "validateAbilityActivation action gs result =
     result\<lparr>warnings :=
        map_option (\<lambda>ws. ws @ [''Ability activation validation not fully implemented''])
          (warnings result)\<rparr>"

definition validateAttackerDeclaration ::
  "GameAction \<Rightarrow> GameState \<Rightarrow> RuleValidationResult \<Rightarrow> RuleValidationResult" where
  "validateAttackerDeclaration action gs result =
     (let r1 = (if phase gs \<noteq> Combat \<or> step gs \<noteq> Some DeclareAttackers
                then addError NotDeclareAttackersStep result else result);
          r2 = (if active_player gs \<noteq> act_player action
                then addError OnlyActivePlayerAttacks r1 else r1)
      in r2)"

definition validateBlockerDeclaration ::
  "GameAction \<Rightarrow> GameState \<Rightarrow> RuleValidationResult \<Rightarrow> RuleValidationResult" where
  "validateBlockerDeclaration action gs result =
     (let r1 = (if phase gs \<noteq> Combat \<or> step gs \<noteq> Some DeclareBlockers
                then addError NotDeclareBlockersStep result else result);
          defendingPlayer = (if active_player gs = Player then Ai else Player);
          r2 = (if defendingPlayer \<noteq> act_player action
                then addError OnlyDefendingPlayerBlocks r1 else r1)
      in r2)"

definition validatePriorityPass ::
  "GameAction \<Rightarrow> GameState \<Rightarrow> RuleValidationResult \<Rightarrow> RuleValidationResult" where
  "validatePriorityPass action gs result =
     (if priority gs \<noteq> act_player action then addError NoPriority result else result)"

definition freshResult :: RuleValidationResult where
  "freshResult = \<lparr>isValid = True, errors = [], warnings = Some []\<rparr>"

text \<open>
  \<open>validateAction\<close>. None of the validators it calls throws on a well-typed action and
  snapshot, so the \<open>catch\<close> block, which adds an error and clears \<open>isValid\<close> like every
  other rejection, has no branch here.
\<close>

definition validateAction :: "GameAction \<Rightarrow> GameState \<Rightarrow> RuleValidationResult" where
  "validateAction action gs =
     (case act_type action of
        cast_spell \<Rightarrow> validateSpellCast action gs freshResult
      | play_land \<Rightarrow> validateLandPlay action gs freshResult
      | activate_ability \<Rightarrow> validateAbilityActivation action gs freshResult
      | declare_attackers \<Rightarrow> validateAttackerDeclaration action gs freshResult
      | declare_blockers \<Rightarrow> validateBlockerDeclaration action gs freshResult
      | pass_priority \<Rightarrow> validatePriorityPass action gs freshResult
      | other_action t \<Rightarrow> addError (UnknownActionType t) freshResult)"

subsection \<open>Format legality\<close>

record DeckCard =
  dc_card :: MTGCard
  quantity :: int

record FormatRules =
  minDeckSize :: int
  maxDeckSize :: "int option"
  exactDeckSize :: "int option"
  maxCopies :: int
  commanderRequired :: bool

definition constructedRules :: FormatRules where
  "constructedRules =
     \<lparr>minDeckSize = 60, maxDeckSize = None, exactDeckSize = None, maxCopies = 4,
      commanderRequired = False\<rparr>"

definition getFormatRules :: "string \<Rightarrow> FormatRules" where
  "getFormatRules fmt =
     (let formatLower = toLowerCase fmt
      in if formatLower = ''standard'' then constructedRules
         else if formatLower = ''modern'' then constructedRules
         else if formatLower = ''legacy'' then constructedRules
         else if formatLower = ''vintage'' then constructedRules
         else if formatLower = ''commander'' \<or> formatLower = ''edh''
           then \<lparr>minDeckSize = 100, maxDeckSize = None, exactDeckSize = Some 100, maxCopies = 1,
                 commanderRequired = True\<rparr>
         else if formatLower = ''limited'' \<or> formatLower = ''draft'' \<or> formatLower = ''sealed''
           then \<lparr>minDeckSize = 40, maxDeckSize = None, exactDeckSize = None, maxCopies = 99,
                 commanderRequired = False\<rparr>
         else if formatLower = ''pauper'' then constructedRules
         else constructedRules)"

definition isBasicLand :: "string \<Rightarrow> bool" where
  "isBasicLand cardName =
     List.member [''plains'', ''island'', ''swamp'', ''mountain'', ''forest'', ''wastes'']
       (toLowerCase cardName)"

definition hasCommander :: "DeckCard list \<Rightarrow> bool" where
  "hasCommander mainboard =
     list_ex (\<lambda>deckCard.
        isLegendary (dc_card deckCard) \<and>
        (isCreature (dc_card deckCard) \<or> isPlaneswalker (dc_card deckCard)) \<and>
        quantity deckCard = 1) mainboard"

text \<open>
  \<open>legalities[key]\<close> reads a property of a plain object: an own property, a string
  here; or one inherited from \<open>Object.prototype\<close>, a function or an object, which
  is truthy and equal to no string; or \<open>undefined\<close>.
\<close>

datatype Property = NoProperty | OwnString string | Inherited

definition objectPrototypeKeys :: "string list" where
  "objectPrototypeKeys =
     [''constructor'', ''__defineGetter__'', ''__defineSetter__'', ''hasOwnProperty'',
      ''__lookupGetter__'', ''__lookupSetter__'', ''isPrototypeOf'', ''propertyIsEnumerable'',
      ''toString'', ''valueOf'', ''__proto__'', ''toLocaleString'']"

definition getProperty :: "(string \<times> string) list \<Rightarrow> string \<Rightarrow> Property" where
  "getProperty obj key =
     (case map_of obj key of
        Some v \<Rightarrow> OwnString v
      | None \<Rightarrow> if List.member objectPrototypeKeys key then Inherited else NoProperty)"

text \<open>
  One round of the loop over the mainboard, on the loop's variables: the \<open>Map\<close>
  \<open>cardCounts\<close>, \<open>totalCards\<close> and the result. \<open>count\<close> is read before the
  quantity of this entry is added.
\<close>

definition deckCardStep ::
  "string \<Rightarrow> FormatRules \<Rightarrow> (string \<rightharpoonup> int) \<times> int \<times> RuleValidationResult \<Rightarrow> DeckCard
     \<Rightarrow> (string \<rightharpoonup> int) \<times> int \<times> RuleValidationResult" where
  "deckCardStep fmt formatRules st deckCard =
     (case st of (cardCounts, totalCards, result) \<Rightarrow>
        (let nm = name (dc_card deckCard);
             count = orElse (cardCounts nm) 0;
             legality = getProperty (legalities (dc_card deckCard)) (toLowerCase fmt);
             r1 = (if legality = OwnString ''banned'' then addError (BannedIn nm fmt) result
                   else if legality = OwnString ''restricted'' \<and> quantity deckCard > 1
                     then addError (RestrictedIn nm fmt) result
                   else if legality = NoProperty \<or> legality = OwnString [] \<or>
                           legality = OwnString ''not_legal''
                     then addError (NotLegalIn nm fmt) result
                   else result);
             r2 = (if \<not> isBasicLand nm \<and> count > maxCopies formatRules
                   then addError (TooManyCopies nm count (maxCopies formatRules)) r1 else r1)
         in (cardCounts(nm \<mapsto> count + quantity deckCard), totalCards + quantity deckCard, r2)))"

definition validateFormatLegality :: "DeckCard list \<Rightarrow> string \<Rightarrow> RuleValidationResult" where
  "validateFormatLegality mainboard fmt =
     (let formatRules = getFormatRules fmt;
          (cardCounts, totalCards, r0) =
             foldl (deckCardStep fmt formatRules) (Map.empty, 0, freshResult) mainboard;
          r1 = (if totalCards < minDeckSize formatRules
                then addError (DeckTooSmall totalCards (minDeckSize formatRules)) r0 else r0);
          r2 = (case maxDeckSize formatRules of
                  None \<Rightarrow> r1
                | Some m \<Rightarrow> if m \<noteq> 0 \<and> totalCards > m
                            then addError (DeckTooLarge totalCards m) r1 else r1);
          r3 = (case exactDeckSize formatRules of
                  None \<Rightarrow> r2
                | Some m \<Rightarrow> if m \<noteq> 0 \<and> totalCards \<noteq> m
                            then addError (DeckNotExact m totalCards) r2 else r2);
          r4 = (if commanderRequired formatRules \<and> \<not> hasCommander mainboard
                then addError CommanderMissing r3 else r3)
      in r4)"

section \<open>Notions used to state the properties\<close>

subsection \<open>Where a card is\<close>

text \<open>
  The containers of a snapshot: four zones for each player, the battlefield of each
  player, and the stack. A card is in a container when a card there (for the stack: the
  source of a stack object) has its identifier.
\<close>

datatype Location =
    InHand PlayerKey | InLibrary PlayerKey | InGraveyard PlayerKey | InExile PlayerKey
  | OnBattlefield PlayerKey | OnStack

definition allLocations :: "Location list" where
  "allLocations =
     [InHand Player, InHand Ai, InLibrary Player, InLibrary Ai, InGraveyard Player,
      InGraveyard Ai, InExile Player, InExile Ai, OnBattlefield Player, OnBattlefield Ai,
      OnStack]"

fun idsAt :: "GameState \<Rightarrow> Location \<Rightarrow> string list" where
  "idsAt gs (InHand k) = map card_id (hand (players gs k))"
| "idsAt gs (InLibrary k) = map card_id (library (players gs k))"
| "idsAt gs (InGraveyard k) = map card_id (graveyard (players gs k))"
| "idsAt gs (InExile k) = map card_id (exile (players gs k))"
| "idsAt gs (OnBattlefield k) = map card_id (battlefield gs k)"
| "idsAt gs OnStack = map (\<lambda>obj. card_id (source obj)) (stack gs)"

definition locationsOf :: "GameState \<Rightarrow> string \<Rightarrow> Location list" where
  "locationsOf gs i = filter (\<lambda>l. List.member (idsAt gs l) i) allLocations"

text \<open>The container a zone-change event names as its destination.\<close>

definition destination :: "ZoneChangeEvent \<Rightarrow> Location" where
  "destination ev =
     (case ev_to ev of
        Hand \<Rightarrow> InHand (ev_player ev)
      | Library \<Rightarrow> InLibrary (ev_player ev)
      | Graveyard \<Rightarrow> InGraveyard (ev_player ev)
      | Exile \<Rightarrow> InExile (ev_player ev)
      | Battlefield \<Rightarrow> OnBattlefield (ev_player ev)
      | Stack \<Rightarrow> OnStack)"

text \<open>The containers that hold the moved card in the snapshot \<open>executeZoneChange\<close> returns.\<close>

definition locationsAfter :: "ZoneChangeEvent \<Rightarrow> GameState \<Rightarrow> ValidationError + Location list" where
  "locationsAfter ev gs =
     (case executeZoneChange ev gs of
        Inl e \<Rightarrow> Inl e
      | Inr gs' \<Rightarrow> Inr (locationsOf gs' (card_id (ev_card ev))))"

text \<open>The container in which an accepted event finds its card.\<close>

definition sourceLoc :: "ZoneChangeEvent \<Rightarrow> GameState \<Rightarrow> Location" where
  "sourceLoc ev gs =
     (case ev_from ev of
        Hand \<Rightarrow> InHand (ev_player ev)
      | Library \<Rightarrow> InLibrary (ev_player ev)
      | Graveyard \<Rightarrow> InGraveyard (ev_player ev)
      | Exile \<Rightarrow> InExile (ev_player ev)
      | Battlefield \<Rightarrow>
          if hasId (card_id (ev_card ev)) (battlefield gs Player) then OnBattlefield Player
          else OnBattlefield Ai
      | Stack \<Rightarrow> OnStack)"

subsection \<open>Snapshots as objects\<close>

text \<open>
  To say that a call leaves its input snapshot alone, snapshots live in a heap: a cell
  for each reference, and the next free reference. \<open>runExecuteZoneChange\<close> is
  \<open>executeZoneChange\<close> called with the reference of its input: validation only reads
  the input; if it throws, nothing has been allocated or written; otherwise the deep copy
  is a new cell, the two mutators work on that cell, and its reference is returned.
\<close>

record Heap =
  cells :: "nat \<Rightarrow> GameState"
  fresh :: nat

definition runExecuteZoneChange ::
  "ZoneChangeEvent \<Rightarrow> nat \<Rightarrow> Heap \<Rightarrow> (ValidationError + nat) \<times> Heap" where
  "runExecuteZoneChange ev a h =
     (case validateZoneChange ev (cells h a) of
        Inl e \<Rightarrow> (Inl e, h)
      | Inr _ \<Rightarrow>
          (let b = fresh h;
               h1 = h\<lparr>cells := (cells h)(b := cells h a), fresh := Suc b\<rparr>;
               h2 = h1\<lparr>cells := (cells h1)
                       (b := removeCardFromZone (ev_card ev) (ev_from ev) (ev_player ev)
                               (cells h1 b))\<rparr>;
               h3 = h2\<lparr>cells := (cells h2)
                       (b := addCardToZone (ev_card ev) (ev_to ev) (ev_player ev) (cells h2 b)
                               (ev_position ev) (ev_faceDown ev))\<rparr>
           in (Inr b, h3)))"

subsection \<open>State-based actions\<close>


definition playerLoss :: "ActionKind \<Rightarrow> bool" where
  "playerLoss t = (t = player_loses_life \<or> t = player_loses_library \<or> t = player_loses_poison)"

definition cardsOf :: "StateBasedAction \<Rightarrow> MTGCard list" where
  "cardsOf a = orElse (affectedCards a) []"



text \<open>The legendary permanents of a battlefield that share the legendary name \<open>nm\<close>.\<close>

definition legendsNamed :: "string \<Rightarrow> MTGCard list \<Rightarrow> MTGCard list" where
  "legendsNamed nm bf = filter (\<lambda>c. isLegendary c \<and> getLegendaryName c = nm) bf"

definition legendNameOf :: "StateBasedAction \<Rightarrow> DataValue option" where
  "legendNameOf a = map_of (orElse (sba_data a) []) ''legendName''"

subsection \<open>Mana payments\<close>

definition coloredKeys :: "Color list" where
  "coloredKeys = [White, Blue, Black, Red, Green]"

text \<open>
  The four conditions on a payment, for a required cost: equal totals; every coloured
  requirement met in its own colour; the generic part met by what is paid beyond the
  coloured requirements; nothing paid beyond the pool.
\<close>

definition totalsMatch :: "ManaPool \<Rightarrow> PartialManaPool \<Rightarrow> bool" where
  "totalsMatch req payment =
     (sum_list (map (paid payment) colorKeys) = sum_list (map (poolGet req) colorKeys))"

definition colorsCovered :: "ManaPool \<Rightarrow> PartialManaPool \<Rightarrow> bool" where
  "colorsCovered req payment = list_all (\<lambda>c. poolGet req c \<le> paid payment c) coloredKeys"

definition genericCovered :: "ManaPool \<Rightarrow> PartialManaPool \<Rightarrow> bool" where
  "genericCovered req payment =
     (colorless req \<le>
        sum_list (map (\<lambda>c. paid payment c - poolGet req c) coloredKeys) + paid payment Colorless)"

definition withinPool :: "PartialManaPool \<Rightarrow> ManaPool \<Rightarrow> bool" where
  "withinPool payment pool = list_all (\<lambda>c. paid payment c \<le> poolGet pool c) colorKeys"

subsection \<open>Validation results\<close>

definition consistent :: "RuleValidationResult \<Rightarrow> bool" where
  "consistent r = (isValid r \<longleftrightarrow> errors r = [])"

section \<open>Sample cards and snapshots\<close>

definition zeroPool :: ManaPool where
  "zeroPool = \<lparr>white = 0, blue = 0, black = 0, red = 0, green = 0, colorless = 0\<rparr>"

definition newPlayer :: "ManaPool \<Rightarrow> MTGCard list \<Rightarrow> PlayerState" where
  "newPlayer pool h =
     \<lparr>life = 20, mana_pool = pool, hand = h, library = [], graveyard = [], exile = []\<rparr>"

definition spellCard :: "string \<Rightarrow> string \<Rightarrow> string \<Rightarrow> string \<Rightarrow> string \<Rightarrow> MTGCard" where
  "spellCard i nm cost ty txt =
     \<lparr>card_id = i, name = nm, mana_cost = Some cost, type_line = ty, oracle_text = Some txt,
      toughness = None, legalities = [(''standard'', ''legal''), (''modern'', ''legal'')],
      card_set = ''LEA''\<rparr>"

definition creatureCard :: "string \<Rightarrow> string \<Rightarrow> string \<Rightarrow> string \<Rightarrow> MTGCard" where
  "creatureCard i nm ty tough =
     \<lparr>card_id = i, name = nm, mana_cost = Some ''{1}{G}'', type_line = ty, oracle_text = None,
      toughness = Some tough, legalities = [], card_set = ''LEA''\<rparr>"

definition lightningBolt :: MTGCard where
  "lightningBolt =
     spellCard ''test-card-1'' ''Lightning Bolt'' ''{R}'' ''Instant''
       ''Lightning Bolt deals 3 damage to any target.''"

definition giantGrowth :: MTGCard where
  "giantGrowth =
     spellCard ''spell-2'' ''Giant Growth'' ''{G}'' ''Instant''
       ''Target creature you control gets +3/+3 until end of turn.''"

definition forkedLightning :: MTGCard where
  "forkedLightning =
     spellCard ''spell-3'' ''Forked Lightning'' ''{3}{R}'' ''Sorcery''
       ''Forked Lightning deals 2 damage to up to two target creatures.''"

definition grizzlyBears :: MTGCard where
  "grizzlyBears = creatureCard ''creature-1'' ''Grizzly Bears'' ''Creature - Bear'' ''2''"

definition savannahLions :: MTGCard where
  "savannahLions = creatureCard ''creature-2'' ''Savannah Lions'' ''Creature - Cat'' ''1''"

definition mockGameState :: GameState where
  "mockGameState =
     \<lparr>active_player = Player, phase = Main1, step = None, priority = Player,
      players = (\<lambda>k. case k of
                   Player \<Rightarrow> newPlayer (zeroPool\<lparr>red := 1\<rparr>) [lightningBolt]
                 | Ai \<Rightarrow> newPlayer zeroPool []),
      battlefield = (\<lambda>k. case k of Player \<Rightarrow> [grizzlyBears] | Ai \<Rightarrow> [savannahLions]),
      stack = [], combat = None\<rparr>"

definition boltMove :: "Zone \<Rightarrow> Zone \<Rightarrow> ZoneChangeEvent" where
  "boltMove f t =
     \<lparr>ev_card = lightningBolt, ev_from = f, ev_to = t, ev_player = Player, ev_position = None,
      ev_faceDown = None\<rparr>"

definition upkeepState :: GameState where
  "upkeepState =
     mockGameState\<lparr>phase := Upkeep, priority := Ai,
       stack := [\<lparr>so_id = ''stack-1'', source = giantGrowth, so_controller = Player,
                  so_targets = None\<rparr>]\<rparr>"

definition whiteForBolt :: GameAction where
  "whiteForBolt =
     \<lparr>act_type = cast_spell, act_player = Player, cardId = Some ''test-card-1'', targets = None,
      manaPayment = Some (emptyPayment\<lparr>pay_white := Some 1\<rparr>)\<rparr>"

definition sampleHeap :: Heap where
  "sampleHeap = \<lparr>cells = (\<lambda>a. mockGameState), fresh = 1\<rparr>"

definition alesha :: "string \<Rightarrow> MTGCard" where
  "alesha i =
     creatureCard i ''Alesha, Who Smiles at Death'' ''Legendary Creature - Human Warrior'' ''2''"

definition legendState :: GameState where
  "legendState =
     mockGameState\<lparr>battlefield :=
       (\<lambda>k. case k of
          Player \<Rightarrow> [alesha ''a1'', grizzlyBears, alesha ''a2'', alesha ''a3'']
        | Ai \<Rightarrow> [savannahLions])\<rparr>"

definition redForBolt :: GameAction where
  "redForBolt =
     \<lparr>act_type = cast_spell, act_player = Player, cardId = Some ''test-card-1'', targets = None,
      manaPayment = Some (emptyPayment\<lparr>pay_red := Some 1\<rparr>)\<rparr>"





definition lingeringSouls :: MTGCard where
  "lingeringSouls =
     spellCard ''spell-6'' ''Lingering Souls'' ''{2}{W}'' ''Sorcery''
       ''Create two 1/1 white Spirit creature tokens with flying. Flashback {1}{B}''"





section \<open>Zone transitions\<close>

lemma isValidZoneTransition_table:
  "isValidZoneTransition z1 z2 \<longleftrightarrow> (z1, z2) \<in> transitionTable"
  by (cases z1; cases z2) (simp_all add: isValidZoneTransition_def transitionTable_def)

text \<open>
  Claim C4. A move between two distinct zones that the transition table does not connect
  is rejected by \<open>validateZoneChange\<close>, whatever the card, the player and the game state;
  and every pair of the table passes the transition check.
\<close>

theorem C4_transition_table:
  "(z1 \<noteq> z2 \<and> (z1, z2) \<notin> transitionTable \<longrightarrow>
      (\<exists>e. validateZoneChange (ev\<lparr>ev_from := z1, ev_to := z2\<rparr>) gs = Inl e))
   \<and> ((z1, z2) \<in> transitionTable \<longrightarrow> isValidZoneTransition z1 z2)"
  by (simp add: validateZoneChange_def Let_def isValidZoneTransition_table)

theorem C4_transition_table_witness:
  "Library \<noteq> Stack \<and> (Library, Stack) \<notin> transitionTable \<and>
   (\<exists>e. validateZoneChange ((boltMove Hand Hand)\<lparr>ev_from := Library, ev_to := Stack\<rparr>)
          mockGameState = Inl e) \<and>
   (Hand, Stack) \<in> transitionTable \<and> isValidZoneTransition Hand Stack"
  using C4_transition_table [of Library Stack "boltMove Hand Hand" mockGameState]
        C4_transition_table [of Hand Stack "boltMove Hand Hand" mockGameState]
  by (simp add: transitionTable_def)

section \<open>Rejected moves\<close>

lemma runExecuteZoneChange_accepted:
  assumes "validateZoneChange ev (cells h a) = Inr v"
  shows "\<exists>gs'. executeZoneChange ev (cells h a) = Inr gs' \<and>
           runExecuteZoneChange ev a h =
             (Inr (fresh h), h\<lparr>cells := (cells h)(fresh h := gs'), fresh := Suc (fresh h)\<rparr>)"
  using assms by (simp add: executeZoneChange_def runExecuteZoneChange_def Let_def)

text \<open>
  Claim C8. When a zone-change event is rejected (the card is absent from the declared
  source zone, the transition is not in the table, or the card may not enter the
  battlefield), \<open>executeZoneChange\<close> ends with the error and the heap is what it was: the
  input snapshot and every other snapshot are unchanged, and no copy was made.
\<close>

theorem C8_rejected_move_changes_nothing:
  "\<not> cardExistsInZone (ev_card ev) (ev_from ev) (players (cells h a) (ev_player ev)) (cells h a) \<or>
   \<not> isValidZoneTransition (ev_from ev) (ev_to ev) \<or>
   (ev_to ev = Battlefield \<and> \<not> canEnterBattlefield (ev_card ev) (cells h a))
   \<longrightarrow> (\<exists>e. validateZoneChange ev (cells h a) = Inl e \<and>
            runExecuteZoneChange ev a h = (Inl e, h))"
  by (auto simp add: validateZoneChange_def runExecuteZoneChange_def Let_def)

theorem C8_rejected_move_witness:
  "\<not> cardExistsInZone (ev_card (boltMove Graveyard Hand)) (ev_from (boltMove Graveyard Hand))
        (players (cells sampleHeap 0) (ev_player (boltMove Graveyard Hand))) (cells sampleHeap 0) \<and>
   (\<exists>e. validateZoneChange (boltMove Graveyard Hand) (cells sampleHeap 0) = Inl e \<and>
        runExecuteZoneChange (boltMove Graveyard Hand) 0 sampleHeap = (Inl e, sampleHeap))"
proof -
  have absent:
    "\<not> cardExistsInZone (ev_card (boltMove Graveyard Hand)) (ev_from (boltMove Graveyard Hand))
        (players (cells sampleHeap 0) (ev_player (boltMove Graveyard Hand))) (cells sampleHeap 0)"
    by code_simp
  with C8_rejected_move_changes_nothing [of "boltMove Graveyard Hand" sampleHeap 0]
  show ?thesis by blast
qed

section \<open>Accepted moves\<close>

lemma hasId_iff: "hasId i cs \<longleftrightarrow> i \<in> set (map card_id cs)"
  by (auto simp add: hasId_def list_ex_iff)

lemma dropId_ids: "set (map card_id (dropId i cs)) = set (map card_id cs) - {i}"
  by (auto simp add: dropId_def)

lemma all_locations: "l \<in> set allLocations"
proof (cases l)
  case (InHand k) then show ?thesis by (cases k) (simp_all add: allLocations_def)
next
  case (InLibrary k) then show ?thesis by (cases k) (simp_all add: allLocations_def)
next
  case (InGraveyard k) then show ?thesis by (cases k) (simp_all add: allLocations_def)
next
  case (InExile k) then show ?thesis by (cases k) (simp_all add: allLocations_def)
next
  case (OnBattlefield k) then show ?thesis by (cases k) (simp_all add: allLocations_def)
next
  case OnStack then show ?thesis by (simp add: allLocations_def)
qed

lemma distinct_allLocations: "distinct allLocations"
  by (simp add: allLocations_def)

lemma filter_eq_single: "distinct xs \<Longrightarrow> x \<in> set xs \<Longrightarrow> filter (\<lambda>y. y = x) xs = [x]"
  by (induction xs) (auto simp add: filter_empty_conv)

lemma filter_single_unique:
  assumes "length (filter P xs) = 1" and "x \<in> set xs" and "P x" and "y \<in> set xs" and "P y"
  shows "x = y"
proof -
  from assms(1) obtain z where z: "filter P xs = [z]"
    by (cases "filter P xs") auto
  from assms(2,3) have "x \<in> set (filter P xs)" by simp
  moreover from assms(4,5) have "y \<in> set (filter P xs)" by simp
  ultimately show ?thesis by (simp add: z)
qed

lemma exists_in_sourceLoc:
  assumes "cardExistsInZone (ev_card ev) (ev_from ev) (players gs (ev_player ev)) gs"
  shows "card_id (ev_card ev) \<in> set (idsAt gs (sourceLoc ev gs))"
  using assms
  by (cases "ev_from ev")
     (force simp add: cardExistsInZone_def sourceLoc_def hasId_iff list_ex_iff)+

lemma remove_ids_subset:
  "set (idsAt (removeCardFromZone c z k gs) l) \<subseteq> set (idsAt gs l)"
  by (cases z; cases l) (auto simp add: removeCardFromZone_def Let_def dropId_def)

lemma remove_clears_source:
  "card_id (ev_card ev) \<notin>
     set (idsAt (removeCardFromZone (ev_card ev) (ev_from ev) (ev_player ev) gs) (sourceLoc ev gs))"
  by (cases "ev_from ev")
     (auto simp add: removeCardFromZone_def sourceLoc_def Let_def dropId_def)

lemma set_spliceInsert: "set (spliceInsert pos x xs) = insert x (set xs)"
proof -
  have "set (take n xs) \<union> set (drop n xs) = set xs" for n
    by (metis append_take_drop_id set_append)
  then show ?thesis by (auto simp add: spliceInsert_def Let_def)
qed

lemma add_ids:
  assumes "ev_to ev \<noteq> Stack"
  shows "set (idsAt (addCardToZone (ev_card ev) (ev_to ev) (ev_player ev) gs pos fd) l) =
           (if l = destination ev then insert (card_id (ev_card ev)) (set (idsAt gs l))
            else set (idsAt gs l))"
  using assms
  by (cases "ev_to ev"; cases l; cases pos)
     (auto simp add: addCardToZone_def destination_def Let_def set_spliceInsert)

lemma add_to_stack: "addCardToZone c Stack k gs pos fd = gs"
  by (simp add: addCardToZone_def)

lemma accepted_move_locations:
  assumes acc: "validateZoneChange ev gs = Inr True"
    and one: "length (locationsOf gs (card_id (ev_card ev))) = 1"
  shows "locationsAfter ev gs = Inr (if ev_to ev = Stack then [] else [destination ev])"
proof -
  let ?i = "card_id (ev_card ev)"
  let ?g1 = "removeCardFromZone (ev_card ev) (ev_from ev) (ev_player ev) gs"
  let ?g2 = "addCardToZone (ev_card ev) (ev_to ev) (ev_player ev) ?g1 (ev_position ev) (ev_faceDown ev)"
  from acc have ex: "cardExistsInZone (ev_card ev) (ev_from ev) (players gs (ev_player ev)) gs"
    by (auto simp add: validateZoneChange_def Let_def split: if_splits)
  have src: "?i \<in> set (idsAt gs (sourceLoc ev gs))"
    using ex by (rule exists_in_sourceLoc)
  have only: "l = sourceLoc ev gs" if "?i \<in> set (idsAt gs l)" for l
    using filter_single_unique [OF one [unfolded locationsOf_def], of l "sourceLoc ev gs"]
      that src all_locations
    by simp
  have gone: "?i \<notin> set (idsAt ?g1 l)" for l
  proof (cases "l = sourceLoc ev gs")
    case True
    then show ?thesis using remove_clears_source [of ev gs] by simp
  next
    case False
    with only have "?i \<notin> set (idsAt gs l)" by blast
    with remove_ids_subset [of "ev_card ev" "ev_from ev" "ev_player ev" gs l]
    show ?thesis by blast
  qed
  have exec: "executeZoneChange ev gs = Inr ?g2"
    using acc by (simp add: executeZoneChange_def)
  show ?thesis
  proof (cases "ev_to ev = Stack")
    case True
    then have "?g2 = ?g1" by (simp add: add_to_stack)
    moreover have "locationsOf ?g1 ?i = []"
      using gone by (simp add: locationsOf_def filter_empty_conv)
    ultimately show ?thesis using exec True by (simp add: locationsAfter_def)
  next
    case False
    have "List.member (idsAt ?g2 l) ?i \<longleftrightarrow> l = destination ev" for l
      using add_ids [OF False, of ?g1 "ev_position ev" "ev_faceDown ev" l] gone [of l]
      by simp
    then have "locationsOf ?g2 ?i = filter (\<lambda>l. l = destination ev) allLocations"
      by (simp add: locationsOf_def)
    also have "\<dots> = [destination ev]"
      by (rule filter_eq_single [OF distinct_allLocations all_locations])
    finally show ?thesis using exec False by (simp add: locationsAfter_def)
  qed
qed

text \<open>
  Claim C1, as stated, fails when the destination is the stack: Lightning Bolt, in the
  player's hand and nowhere else, is moved from hand to stack; the event is accepted, and
  in the snapshot returned the card is in no container at all.
\<close>

theorem C1_stack_move_counterexample:
  "validateZoneChange (boltMove Hand Stack) mockGameState = Inr True \<and>
   locationsOf mockGameState (card_id (ev_card (boltMove Hand Stack))) = [InHand Player] \<and>
   destination (boltMove Hand Stack) = OnStack \<and>
   locationsAfter (boltMove Hand Stack) mockGameState = Inr [] \<and>
   locationsAfter (boltMove Hand Stack) mockGameState \<noteq>
     Inr [destination (boltMove Hand Stack)]"
  by code_simp

text \<open>
  Claim C1, amended. For an accepted zone-change event on a snapshot that holds the card
  in exactly one container: if the destination is not the stack, the card is, in the
  snapshot returned, in exactly one container, the destination of the move; if the
  destination is the stack, the card has left its source and is in no container
  (insertion into the stack is left to the caller).
\<close>

theorem C1_accepted_move:
  "validateZoneChange ev gs = Inr True \<and> length (locationsOf gs (card_id (ev_card ev))) = 1
   \<longrightarrow> locationsAfter ev gs = Inr (if ev_to ev = Stack then [] else [destination ev])"
  using accepted_move_locations [of ev gs] by blast

theorem C1_accepted_move_witness:
  "validateZoneChange (boltMove Hand Graveyard) mockGameState = Inr True \<and>
   length (locationsOf mockGameState (card_id (ev_card (boltMove Hand Graveyard)))) = 1 \<and>
   locationsAfter (boltMove Hand Graveyard) mockGameState = Inr [InGraveyard Player]"
proof -
  have accepted:
    "validateZoneChange (boltMove Hand Graveyard) mockGameState = Inr True \<and>
     length (locationsOf mockGameState (card_id (ev_card (boltMove Hand Graveyard)))) = 1"
    by code_simp
  have dest:
    "(if ev_to (boltMove Hand Graveyard) = Stack then []
      else [destination (boltMove Hand Graveyard)]) = [InGraveyard Player]"
    by code_simp
  show ?thesis
    using accepted dest C1_accepted_move [of "boltMove Hand Graveyard" mockGameState]
    by simp
qed

section \<open>Timing of spells\<close>








text \<open>
  The test for flash is \<open>text.includes('flash')\<close>, which the word "Flashback" passes
  as well: Lingering Souls, a sorcery with flashback, is checked at instant speed and
  passes in the same upkeep. The amended claim says nothing of cards whose text contains
  "flash".
\<close>

lemma flashback_sorcery_checked_as_instant:
  "strIncludes (toLowerCase (type_line lingeringSouls)) ''sorcery'' \<and>
   speed (getCardTiming lingeringSouls) = InstantSpeed \<and>
   canCastSpell lingeringSouls upkeepState Ai"
  by code_simp




section \<open>Mana payments\<close>

lemma validateManaCost_iff:
  assumes "mana_cost crd = Some mc" and "mc \<noteq> []"
  shows "validateManaCost crd payment pool \<longleftrightarrow>
           totalsMatch (parseManaCost mc) payment \<and> colorsCovered (parseManaCost mc) payment \<and>
           genericCovered (parseManaCost mc) payment \<and> withinPool payment pool"
  using assms
  by (auto simp add: validateManaCost_def Let_def totalsMatch_def colorsCovered_def
        genericCovered_def withinPool_def colorKeys_def coloredKeys_def)

lemma cast_insufficient_iff:
  assumes "act_type action = cast_spell" and "cardId action = Some cid" and "cid \<noteq> []"
    and "findCardInHand cid (players gs (act_player action)) = Some crd"
  shows "InsufficientMana (name crd) \<in> set (errors (validateAction action gs)) \<longleftrightarrow>
           \<not> validateManaCost crd (orElse (manaPayment action) emptyPayment)
                (mana_pool (players gs (act_player action)))"
  using assms
  by (auto simp add: validateAction_def validateSpellCast_def Let_def orElse_def addError_def
      freshResult_def split: option.splits)

lemma bolt_paid_with_white:
  "validateAction whiteForBolt mockGameState =
     \<lparr>isValid = False, errors = [InsufficientMana ''Lightning Bolt''], warnings = Some []\<rparr>"
  by code_simp

text \<open>
  Claim C6. For a card with a mana cost, \<open>validateManaCost\<close> accepts a payment exactly
  when the payment's total equals the total of the parsed cost, each of the five coloured
  requirements is paid in its colour, the generic part is covered by what is paid beyond
  them, and no counter of the payment exceeds the pool; validating a \<open>cast_spell\<close>
  action for a card found in the actor's hand reports the insufficient-mana violation
  exactly when these conditions fail. Paying one white mana for Lightning Bolt (cost one
  red mana) is rejected with that violation.
\<close>

theorem C6_mana_payment:
  "(mana_cost crd = Some mc \<and> mc \<noteq> [] \<longrightarrow>
      (validateManaCost crd payment pool \<longleftrightarrow>
         totalsMatch (parseManaCost mc) payment \<and> colorsCovered (parseManaCost mc) payment \<and>
         genericCovered (parseManaCost mc) payment \<and> withinPool payment pool)) \<and>
   (mana_cost crd = Some mc \<and> mc \<noteq> [] \<and> act_type action = cast_spell \<and>
    cardId action = Some cid \<and> cid \<noteq> [] \<and>
    findCardInHand cid (players gs (act_player action)) = Some crd \<longrightarrow>
      (InsufficientMana (name crd) \<notin> set (errors (validateAction action gs)) \<longleftrightarrow>
         totalsMatch (parseManaCost mc) (orElse (manaPayment action) emptyPayment) \<and>
         colorsCovered (parseManaCost mc) (orElse (manaPayment action) emptyPayment) \<and>
         genericCovered (parseManaCost mc) (orElse (manaPayment action) emptyPayment) \<and>
         withinPool (orElse (manaPayment action) emptyPayment)
           (mana_pool (players gs (act_player action))))) \<and>
   validateAction whiteForBolt mockGameState =
     \<lparr>isValid = False, errors = [InsufficientMana ''Lightning Bolt''], warnings = Some []\<rparr>"
  using validateManaCost_iff [of crd mc] cast_insufficient_iff [of action cid gs crd]
    bolt_paid_with_white
  by blast

theorem C6_mana_payment_witness:
  "mana_cost lightningBolt = Some ''{R}'' \<and> act_type redForBolt = cast_spell \<and>
   cardId redForBolt = Some ''test-card-1'' \<and>
   findCardInHand ''test-card-1'' (players mockGameState (act_player redForBolt)) =
     Some lightningBolt \<and>
   validateManaCost lightningBolt (emptyPayment\<lparr>pay_red := Some 1\<rparr>) (zeroPool\<lparr>red := 1\<rparr>) \<and>
   withinPool (emptyPayment\<lparr>pay_red := Some 1\<rparr>) (zeroPool\<lparr>red := 1\<rparr>) \<and>
   InsufficientMana (name lightningBolt) \<notin> set (errors (validateAction redForBolt mockGameState))"
proof -
  have given:
    "mana_cost lightningBolt = Some ''{R}'' \<and> ''{R}'' \<noteq> [] \<and> act_type redForBolt = cast_spell \<and>
     cardId redForBolt = Some ''test-card-1'' \<and> ''test-card-1'' \<noteq> [] \<and>
     findCardInHand ''test-card-1'' (players mockGameState (act_player redForBolt)) =
       Some lightningBolt"
    by code_simp
  have pays:
    "totalsMatch (parseManaCost ''{R}'') (emptyPayment\<lparr>pay_red := Some 1\<rparr>) \<and>
     colorsCovered (parseManaCost ''{R}'') (emptyPayment\<lparr>pay_red := Some 1\<rparr>) \<and>
     genericCovered (parseManaCost ''{R}'') (emptyPayment\<lparr>pay_red := Some 1\<rparr>) \<and>
     withinPool (emptyPayment\<lparr>pay_red := Some 1\<rparr>) (zeroPool\<lparr>red := 1\<rparr>)"
    by code_simp
  have same:
    "orElse (manaPayment redForBolt) emptyPayment = emptyPayment\<lparr>pay_red := Some 1\<rparr> \<and>
     mana_pool (players mockGameState (act_player redForBolt)) = zeroPool\<lparr>red := 1\<rparr>"
    by code_simp
  show ?thesis
    using given pays same
      C6_mana_payment [of lightningBolt "''{R}''" "emptyPayment\<lparr>pay_red := Some 1\<rparr>"
        "zeroPool\<lparr>red := 1\<rparr>" redForBolt "''test-card-1''" mockGameState]
    by simp
qed

section \<open>Validation results\<close>

lemma consistent_addError [simp]: "consistent (addError e r)"
  by (simp add: consistent_def addError_def)

lemma consistent_fresh [simp]: "consistent freshResult"
  by (simp add: consistent_def freshResult_def)

lemma consistent_validateSpellCast:
  "consistent r \<Longrightarrow> consistent (validateSpellCast action gs r)"
  by (simp add: validateSpellCast_def Let_def split: option.splits)

lemma consistent_validateLandPlay:
  "consistent r \<Longrightarrow> consistent (validateLandPlay action gs r)"
  by (simp add: validateLandPlay_def Let_def split: option.splits)

lemma consistent_validateAbilityActivation:
  "consistent r \<Longrightarrow> consistent (validateAbilityActivation action gs r)"
  by (simp add: validateAbilityActivation_def consistent_def)

lemma consistent_validateAttackerDeclaration:
  "consistent r \<Longrightarrow> consistent (validateAttackerDeclaration action gs r)"
  by (simp add: validateAttackerDeclaration_def Let_def)

lemma consistent_validateBlockerDeclaration:
  "consistent r \<Longrightarrow> consistent (validateBlockerDeclaration action gs r)"
  by (simp add: validateBlockerDeclaration_def Let_def)

lemma consistent_validatePriorityPass:
  "consistent r \<Longrightarrow> consistent (validatePriorityPass action gs r)"
  by (simp add: validatePriorityPass_def)

lemma consistent_validateAction: "consistent (validateAction action gs)"
  by (simp add: validateAction_def consistent_validateSpellCast consistent_validateLandPlay
      consistent_validateAbilityActivation consistent_validateAttackerDeclaration
      consistent_validateBlockerDeclaration consistent_validatePriorityPass
      split: ActionType.splits)

lemma consistent_deckCardStep:
  "consistent (snd (snd st)) \<Longrightarrow> consistent (snd (snd (deckCardStep fmt rules st deckCard)))"
  by (cases st) (simp add: deckCardStep_def Let_def)

lemma consistent_deck_loop:
  "consistent (snd (snd st)) \<Longrightarrow>
   consistent (snd (snd (foldl (deckCardStep fmt rules) st mainboard)))"
  by (induction mainboard arbitrary: st) (simp_all add: consistent_deckCardStep)

lemma consistent_validateFormatLegality: "consistent (validateFormatLegality mainboard fmt)"
proof -
  obtain cc tc r0 where
    st: "foldl (deckCardStep fmt (getFormatRules fmt)) (Map.empty, 0, freshResult) mainboard
           = (cc, tc, r0)"
    by (cases "foldl (deckCardStep fmt (getFormatRules fmt)) (Map.empty, 0, freshResult) mainboard")
  have "consistent r0"
    using consistent_deck_loop [of "(Map.empty, 0, freshResult)" fmt "getFormatRules fmt" mainboard]
    by (simp add: st)
  then show ?thesis
    by (simp add: validateFormatLegality_def Let_def st split: option.splits)
qed

lemma ability_activation_result:
  "validateAction (action\<lparr>act_type := activate_ability\<rparr>) gs =
     \<lparr>isValid = True, errors = [],
      warnings = Some [''Ability activation validation not fully implemented'']\<rparr>"
  by (simp add: validateAction_def validateAbilityActivation_def freshResult_def)

text \<open>
  Claim C10. In every result of \<open>validateAction\<close> and of \<open>validateFormatLegality\<close>,
  \<open>isValid\<close> is true exactly when the list of errors is empty; the warning that
  validating an \<open>activate_ability\<close> action adds leaves the result valid and without
  errors.
\<close>

theorem C10_valid_iff_no_errors:
  "(isValid (validateAction action gs) \<longleftrightarrow> errors (validateAction action gs) = []) \<and>
   (isValid (validateFormatLegality mainboard fmt) \<longleftrightarrow>
      errors (validateFormatLegality mainboard fmt) = []) \<and>
   validateAction (action\<lparr>act_type := activate_ability\<rparr>) gs =
     \<lparr>isValid = True, errors = [],
      warnings = Some [''Ability activation validation not fully implemented'']\<rparr>"
  using consistent_validateAction [of action gs]
    consistent_validateFormatLegality [of mainboard fmt] ability_activation_result [of action gs]
  by (simp add: consistent_def)

section \<open>Targeting\<close>

lemma validateRestriction_control:
  "validateRestriction ''you_control'' target gs = (controller target = Player)"
  "validateRestriction ''opponent_controls'' target gs = (controller target = Ai)"
  by (simp_all add: validateRestriction_def)

text \<open>
  Claim C3. The restriction \<open>you_control\<close> is meant to hold exactly for the targets of
  the requesting player. Evaluated for the requesting player \<open>Ai\<close>: the candidates for
  Giant Growth ("Target creature you control ...") are the creature of the other player
  only, and \<open>you_control\<close> is false of Ai's own creature while \<open>opponent_controls\<close>
  is true of it.
\<close>

theorem C3_control_ignores_requester:
  "getValidTargets giantGrowth mockGameState Ai =
     [\<lparr>target_id = ''creature-1'', target_type = TCreature, controller = Player\<rparr>] \<and>
   \<not> validateRestriction ''you_control''
        \<lparr>target_id = ''creature-2'', target_type = TCreature, controller = Ai\<rparr> mockGameState \<and>
   validateRestriction ''opponent_controls''
        \<lparr>target_id = ''creature-2'', target_type = TCreature, controller = Ai\<rparr> mockGameState"
  by code_simp

text \<open>
  Claim C9. An "up to two target ..." clause is meant to give an optional requirement of
  count 2. Evaluated on Forked Lightning ("... deals 2 damage to up to two target
  creatures."): the clause handed to \<open>parseTargetClause\<close> starts at the word "target",
  and the requirement has count 1 and is not optional.
\<close>

theorem C9_up_to_two_parsed_as_one:
  "targetMatches ''Forked Lightning deals 2 damage to up to two target creatures.'' =
     [''target creatures''] \<and>
   parseTargetRequirements forkedLightning =
     [\<lparr>tr_type = TCreature, tr_count = 1, tr_optional = False, restrictions = Some []\<rparr>]"
  by code_simp

section \<open>Legend rule\<close>

lemma map_of_pushLegend:
  "map_of (pushLegend nm c m) k =
     (if k = nm then Some (orElse (map_of m nm) [] @ [c]) else map_of m k)"
  by (induction m) (auto simp add: orElse_def)

lemma keys_pushLegend:
  "map fst (pushLegend nm c m) =
     (if nm \<in> set (map fst m) then map fst m else map fst m @ [nm])"
proof (induction m)
  case Nil
  then show ?case by simp
next
  case (Cons e m)
  obtain k v where e: "e = (k, v)" by (cases e)
  show ?case
  proof (cases "k = nm")
    case True
    then show ?thesis by (simp add: e)
  next
    case False
    then show ?thesis using Cons by (simp add: e)
  qed
qed

lemma distinct_pushLegend:
  "distinct (map fst m) \<Longrightarrow> distinct (map fst (pushLegend nm c m))"
  by (simp add: keys_pushLegend)

lemma map_of_addLegend:
  "map_of (addLegend m c) k =
     (if isLegendary c \<and> getLegendaryName c = k then Some (orElse (map_of m k) [] @ [c])
      else map_of m k)"
  by (auto simp add: addLegend_def map_of_pushLegend)

lemma distinct_addLegend:
  "distinct (map fst m) \<Longrightarrow> distinct (map fst (addLegend m c))"
  by (simp add: addLegend_def distinct_pushLegend)

lemma map_of_legends_loop:
  "map_of (foldl addLegend m bf) nm =
     (if legendsNamed nm bf = [] then map_of m nm
      else Some (orElse (map_of m nm) [] @ legendsNamed nm bf))"
proof (induction bf arbitrary: m)
  case Nil
  then show ?case by (simp add: legendsNamed_def)
next
  case (Cons c bf)
  show ?case
    by (simp add: Cons.IH map_of_addLegend) (auto simp add: legendsNamed_def orElse_def)
qed

lemma distinct_legends_loop:
  "distinct (map fst m) \<Longrightarrow> distinct (map fst (foldl addLegend m bf))"
  by (induction bf arbitrary: m) (simp_all add: distinct_addLegend)

lemma map_of_legendsByName:
  "map_of (legendsByName bf) nm =
     (if legendsNamed nm bf = [] then None else Some (legendsNamed nm bf))"
  by (simp add: legendsByName_def map_of_legends_loop orElse_def)

lemma distinct_legendsByName: "distinct (map fst (legendsByName bf))"
  by (simp add: legendsByName_def distinct_legends_loop)

lemma legendAction_name:
  "a \<in> set (legendAction (k, v)) \<Longrightarrow> legendNameOf a = Some (StrVal k)"
  by (auto simp add: legendAction_def legendNameOf_def orElse_def split: if_splits)

lemma filter_legend_actions:
  "distinct (map fst m) \<Longrightarrow>
   filter (\<lambda>a. legendNameOf a = Some (StrVal nm)) (concat (map legendAction m)) =
     (case map_of m nm of None \<Rightarrow> [] | Some v \<Rightarrow> legendAction (nm, v))"
proof (induction m)
  case Nil
  then show ?case by simp
next
  case (Cons e m)
  obtain k v where e: "e = (k, v)" by (cases e)
  show ?case
  proof (cases "k = nm")
    case True
    with Cons.prems e have "map_of m nm = None"
      by (auto simp add: map_of_eq_None_iff)
    moreover have "filter (\<lambda>a. legendNameOf a = Some (StrVal nm)) (legendAction (nm, v)) =
        legendAction (nm, v)"
      using legendAction_name [of _ nm v] by (simp add: filter_id_conv)
    ultimately show ?thesis using Cons e True by simp
  next
    case False
    have "filter (\<lambda>a. legendNameOf a = Some (StrVal nm)) (legendAction (k, v)) = []"
      using legendAction_name [of _ k v] False by (auto simp add: filter_empty_conv)
    then show ?thesis using Cons e False by simp
  qed
qed

lemma legend_rule_slates_all_but_first:
  assumes "1 < length (legendsNamed nm bf)"
  shows "map cardsOf (filter (\<lambda>a. legendNameOf a = Some (StrVal nm)) (legendRuleFor bf)) =
           [drop 1 (legendsNamed nm bf)]"
proof -
  from assms have ne: "legendsNamed nm bf \<noteq> []" by auto
  have "filter (\<lambda>a. legendNameOf a = Some (StrVal nm)) (legendRuleFor bf) =
          legendAction (nm, legendsNamed nm bf)"
    by (simp add: legendRuleFor_def filter_legend_actions [OF distinct_legendsByName]
        map_of_legendsByName ne)
  with assms show ?thesis
    by (simp add: legendAction_def cardsOf_def orElse_def)
qed

subsection \<open>What each check produces\<close>

lemma filter_none: "(\<And>a. a \<in> set xs \<Longrightarrow> \<not> P a) \<Longrightarrow> filter P xs = []"
  by (simp add: filter_empty_conv)

lemma filter_all: "(\<And>a. a \<in> set xs \<Longrightarrow> P a) \<Longrightarrow> filter P xs = xs"
  by (simp add: filter_id_conv)

lemma player_actions_kind:
  "a \<in> set (checkPlayerStateActions gs) \<Longrightarrow> playerLoss (sba_type a) \<and> cardsOf a = []"
  by (auto simp add: checkPlayerStateActions_def playerLoss_def cardsOf_def orElse_def Let_def
      playerKeys_def split: if_splits)

lemma creatureActions_kind:
  "a \<in> set (creatureActions c) \<Longrightarrow>
     sba_type a \<noteq> legend_rule_violation \<and> sba_type a \<noteq> equipment_unattached \<and> cardsOf a = [c]"
  by (auto simp add: creatureActions_def cardsOf_def orElse_def Let_def split: if_splits)

lemma planeswalkerActions_kind:
  "a \<in> set (planeswalkerActions c) \<Longrightarrow>
     sba_type a \<noteq> legend_rule_violation \<and> sba_type a \<noteq> equipment_unattached \<and> cardsOf a = [c]"
  by (auto simp add: planeswalkerActions_def cardsOf_def orElse_def Let_def split: if_splits)

lemma auraActions_kind:
  "a \<in> set (auraActions gs c) \<Longrightarrow>
     sba_type a \<noteq> legend_rule_violation \<and> sba_type a \<noteq> equipment_unattached \<and> cardsOf a = [c]"
  by (auto simp add: auraActions_def cardsOf_def orElse_def Let_def split: if_splits)

lemma legendAction_kind:
  "a \<in> set (legendAction (k, v)) \<Longrightarrow>
     sba_type a = legend_rule_violation \<and> set (cardsOf a) \<subseteq> set v"
  by (auto simp add: legendAction_def cardsOf_def orElse_def split: if_splits dest: in_set_dropD)

lemma legends_loop_cards:
  "(k, v) \<in> set (foldl addLegend m bf) \<Longrightarrow>
     set v \<subseteq> set bf \<union> (\<Union>e \<in> set m. set (snd e))"
proof (induction bf arbitrary: m)
  case Nil
  then show ?case by force
next
  case (Cons c bf)
  have push: "(\<Union>e \<in> set (pushLegend nm c m). set (snd e)) \<subseteq> insert c (\<Union>e \<in> set m. set (snd e))"
    for nm
  proof (induction m)
    case Nil
    then show ?case by simp
  next
    case (Cons e m)
    obtain k v where e: "e = (k, v)" by (cases e)
    show ?case
    proof (cases "k = nm")
      case True
      then show ?thesis by (auto simp add: e)
    next
      case False
      then show ?thesis using Cons by (auto simp add: e)
    qed
  qed
  have "(\<Union>e \<in> set (addLegend m c). set (snd e)) \<subseteq> insert c (\<Union>e \<in> set m. set (snd e))"
    using push by (auto simp add: addLegend_def)
  with Cons.IH [of "addLegend m c"] Cons.prems show ?case by auto
qed

lemma legendRuleFor_kind:
  assumes "a \<in> set (legendRuleFor bf)"
  shows "sba_type a = legend_rule_violation \<and> set (cardsOf a) \<subseteq> set bf"
proof -
  from assms obtain k v where kv: "(k, v) \<in> set (legendsByName bf)" and a: "a \<in> set (legendAction (k, v))"
    by (auto simp add: legendRuleFor_def)
  from kv have "set v \<subseteq> set bf"
    using legends_loop_cards [of k v "[]" bf] by (simp add: legendsByName_def)
  with legendAction_kind [OF a] show ?thesis by auto
qed

lemma world_actions_kind:
  "a \<in> set (checkWorldRuleActions gs) \<Longrightarrow>
     sba_type a = world_rule_violation \<and>
     set (cardsOf a) \<subseteq> set (battlefield gs Player) \<union> set (battlefield gs Ai)"
  by (auto simp add: checkWorldRuleActions_def cardsOf_def orElse_def Let_def playerKeys_def
      split: if_splits)

lemma equipmentActions_none: "equipmentActions gs c = []"
  by (simp add: equipmentActions_def getAttachmentTarget_def)

lemma equipment_actions_none: "checkEquipmentStateActions gs = []"
  by (auto simp add: checkEquipmentStateActions_def equipmentActions_none playerKeys_def)

lemma scan_legend_actions:
  "filter (\<lambda>a. sba_type a = legend_rule_violation) (checkStateBasedActions gs) =
     legendRuleFor (battlefield gs Player) @ legendRuleFor (battlefield gs Ai)"
proof -
  have 1: "filter (\<lambda>a. sba_type a = legend_rule_violation) (checkPlayerStateActions gs) = []"
    by (rule filter_none) (auto dest: player_actions_kind simp add: playerLoss_def)
  have 2: "filter (\<lambda>a. sba_type a = legend_rule_violation) (checkCreatureStateActions gs) = []"
    by (rule filter_none)
       (auto simp add: checkCreatureStateActions_def playerKeys_def dest: creatureActions_kind)
  have 3: "filter (\<lambda>a. sba_type a = legend_rule_violation) (checkPlaneswalkerStateActions gs) = []"
    by (rule filter_none)
       (auto simp add: checkPlaneswalkerStateActions_def playerKeys_def
          dest: planeswalkerActions_kind)
  have 4: "filter (\<lambda>a. sba_type a = legend_rule_violation) (checkLegendRuleActions gs) =
      checkLegendRuleActions gs"
    by (rule filter_all)
       (auto simp add: checkLegendRuleActions_def playerKeys_def dest: legendRuleFor_kind)
  have 5: "filter (\<lambda>a. sba_type a = legend_rule_violation) (checkWorldRuleActions gs) = []"
    by (rule filter_none) (auto dest: world_actions_kind)
  have 6: "filter (\<lambda>a. sba_type a = legend_rule_violation) (checkAuraStateActions gs) = []"
    by (rule filter_none)
       (auto simp add: checkAuraStateActions_def playerKeys_def dest: auraActions_kind)
  show ?thesis
    by (simp add: checkStateBasedActions_def 1 2 3 4 5 6 equipment_actions_none)
       (simp add: checkLegendRuleActions_def playerKeys_def)
qed

text \<open>
  Claim C7. When a player's battlefield holds more than one legendary permanent with the
  legendary name \<open>nm\<close>, the legend-rule check makes one action for that name on that
  battlefield, and its cards are those permanents in battlefield order without the first:
  one fewer than there are. The legend-rule actions of the whole scan are those of the
  player's battlefield followed by those of the other battlefield.
\<close>

theorem C7_legend_rule:
  "(1 < length (legendsNamed nm (battlefield gs k)) \<longrightarrow>
      map cardsOf (filter (\<lambda>a. legendNameOf a = Some (StrVal nm))
                     (legendRuleFor (battlefield gs k))) =
        [drop 1 (legendsNamed nm (battlefield gs k))] \<and>
      length (drop 1 (legendsNamed nm (battlefield gs k))) =
        length (legendsNamed nm (battlefield gs k)) - 1) \<and>
   filter (\<lambda>a. sba_type a = legend_rule_violation) (checkStateBasedActions gs) =
     legendRuleFor (battlefield gs Player) @ legendRuleFor (battlefield gs Ai)"
  using legend_rule_slates_all_but_first [of nm "battlefield gs k"] scan_legend_actions [of gs]
  by simp

theorem C7_legend_rule_witness:
  "legendsNamed ''Alesha, Who Smiles at Death'' (battlefield legendState Player) =
     [alesha ''a1'', alesha ''a2'', alesha ''a3''] \<and>
   map cardsOf (filter (\<lambda>a. legendNameOf a = Some (StrVal ''Alesha, Who Smiles at Death''))
                  (legendRuleFor (battlefield legendState Player))) =
     [[alesha ''a2'', alesha ''a3'']]"
proof -
  have three:
    "legendsNamed ''Alesha, Who Smiles at Death'' (battlefield legendState Player) =
       [alesha ''a1'', alesha ''a2'', alesha ''a3'']"
    by code_simp
  show ?thesis
    using three C7_legend_rule [of "''Alesha, Who Smiles at Death''" legendState Player]
    by simp
qed

section \<open>Applying state-based actions\<close>






























end
